theory Spec2Isabelle
  imports Main
begin

section \<open>Data model\<close>

text \<open>
  The session of the educational assistant: uploaded documents, the chat log, generated
  IEPs and lesson plans, all kept by the state manager, and the external collaborators
  (file handler, document loader, vector store, LLM client, RAG chain) that the UI code
  calls. Python dictionaries built by the code with a fixed set of keys are records;
  dictionaries with open key sets (document metadata, the LLM response) are maps.
\<close>

type_synonym metadata = "string \<rightharpoonup> string"

text \<open>A langchain \<^verbatim>\<open>Document\<close>: \<^verbatim>\<open>page_content\<close> and \<^verbatim>\<open>metadata\<close>.\<close>

record document =
  page_content :: string
  metadata :: metadata

text \<open>
  A source of an answer as the RAG chain hands it over: a \<^verbatim>\<open>Document\<close>, or a value of
  another kind (a dictionary, say), of which only its text form is kept. Nothing in the UI
  code checks which of the two it gets before it stores the list.
\<close>

datatype source = Doc document | Other string

text \<open>An entry of the \<^verbatim>\<open>messages\<close> collection; the user message has no \<^verbatim>\<open>sources\<close> key.\<close>

record chat_message =
  msg_role :: string
  msg_content :: string
  msg_sources :: "source list option"

text \<open>The dictionary \<^verbatim>\<open>iep_result\<close> of \<^verbatim>\<open>handle_iep_generation\<close>.\<close>

record iep_result =
  iep_id :: string
  iep_source :: string
  iep_source_id :: string
  iep_content :: string
  iep_timestamp :: string

text \<open>The dictionary \<^verbatim>\<open>plan_data\<close> of \<^verbatim>\<open>handle_lesson_plan_generation\<close>.\<close>

record lesson_plan =
  plan_id :: string
  plan_subject :: string
  plan_grade_level :: string
  plan_duration :: string
  plan_timeframe :: string
  plan_days :: "string list"
  plan_specific_goals :: "string list"
  plan_materials :: "string list"
  plan_additional_accommodations :: "string list"
  plan_content :: string
  plan_source_iep_id :: string
  plan_source_iep_source :: string
  plan_timestamp :: string

text \<open>
  What \<^verbatim>\<open>rag_chain.run\<close> returns: a dictionary read at the keys \<^verbatim>\<open>result\<close> and
  \<^verbatim>\<open>source_documents\<close>; \<open>None\<close> in a field is an absent key.
\<close>

record rag_response =
  result :: "string option"
  source_documents :: "source list option"

record system_state =
  llm_initialized :: bool
  vector_store_initialized :: bool
  chain_initialized :: bool

text \<open>
  Modelled from the spec: \<^verbatim>\<open>ui/state_manager.py\<close> is not among the sources. Section 4.5
  describes it as one registry of named collections plus health flags, created with empty
  collections and all flags false, with \<^verbatim>\<open>get(key, default)\<close>, \<^verbatim>\<open>set(key, value)\<close> (replace),
  \<^verbatim>\<open>append(key, item)\<close> (read, extend at the end, write back) and a merge of health flags.
  The keys are the ones the UI code uses; \<^verbatim>\<open>get\<close> is the field, \<^verbatim>\<open>set\<close> the field update.
\<close>

record session_state =
  documents :: "document list"
  messages :: "chat_message list"
  iep_results :: "iep_result list"
  lesson_plans :: "lesson_plan list"
  rag_queries :: "rag_response list"
  documents_processed :: bool
  current_plan :: "lesson_plan option"
  system :: system_state

definition initial_state :: session_state where
  "initial_state =
     \<lparr>documents = [], messages = [], iep_results = [], lesson_plans = [], rag_queries = [],
      documents_processed = False, current_plan = None,
      system = \<lparr>llm_initialized = False, vector_store_initialized = False,
                chain_initialized = False\<rparr>\<rparr>"

definition append_documents :: "document \<Rightarrow> session_state \<Rightarrow> session_state" where
  "append_documents d s = s\<lparr>documents := documents s @ [d]\<rparr>"

definition append_messages :: "chat_message \<Rightarrow> session_state \<Rightarrow> session_state" where
  "append_messages m s = s\<lparr>messages := messages s @ [m]\<rparr>"

definition append_iep_results :: "iep_result \<Rightarrow> session_state \<Rightarrow> session_state" where
  "append_iep_results r s = s\<lparr>iep_results := iep_results s @ [r]\<rparr>"

definition append_lesson_plans :: "lesson_plan \<Rightarrow> session_state \<Rightarrow> session_state" where
  "append_lesson_plans p s = s\<lparr>lesson_plans := lesson_plans s @ [p]\<rparr>"

definition update_vector_store_initialized :: "bool \<Rightarrow> session_state \<Rightarrow> session_state" where
  "update_vector_store_initialized b s =
     s\<lparr>system := (system s)\<lparr>vector_store_initialized := b\<rparr>\<rparr>"

subsection \<open>Exceptions, user-visible output, collaborators\<close>

text \<open>
  The \<^verbatim>\<open>except\<close> clauses of the UI code tell \<^verbatim>\<open>FileHandlerError\<close> from every other
  \<^verbatim>\<open>Exception\<close>, and catch nothing else: an exception that is not an
  \<^verbatim>\<open>Exception\<close> (\<^verbatim>\<open>KeyboardInterrupt\<close>, \<^verbatim>\<open>SystemExit\<close>, a cancelled call, the
  exceptions with which Streamlit stops or reruns a script) passes every handler of the
  UI code. The string is \<^verbatim>\<open>str(e)\<close>.
\<close>

datatype exn = FileHandlerError string | Exception string | BaseException string

text \<open>\<^verbatim>\<open>isinstance(e, Exception)\<close>: what \<^verbatim>\<open>except Exception\<close> catches.\<close>

definition is_exception :: "exn \<Rightarrow> bool" where
  "is_exception e = (case e of BaseException m \<Rightarrow> False | _ \<Rightarrow> True)"

datatype level = Info | Success | Warning | Error

text \<open>
  What a run leaves behind besides the session state, in order: a message shown by
  \<^verbatim>\<open>st.error\<close>, \<^verbatim>\<open>st.success\<close>, \<^verbatim>\<open>st.warning\<close>, \<^verbatim>\<open>st.info\<close> or the
  \<^verbatim>\<open>display_*\<close> wrappers (\<open>Display\<close>); a message written into the status container of the
  file being processed (\<open>Status\<close>); \<^verbatim>\<open>file_handler.cleanup()\<close>; \<^verbatim>\<open>st.rerun()\<close>; and
  the exception with which the function is left when none of its handlers catches it
  (\<open>Raised\<close>), after which the function does nothing more. The Streamlit calls
  themselves (\<^verbatim>\<open>st.write\<close>, \<^verbatim>\<open>st.markdown\<close>, \<^verbatim>\<open>st.empty\<close>, spinners, expanders, the
  status container) change no state and are taken to return; what they are given to show
  is computed by the model where computing it can raise.
\<close>

datatype event =
    Display level string
  | Status level string
  | Cleanup
  | Rerun
  | Raised exn

record upload_file =
  name :: string
  data :: string

text \<open>The \<^verbatim>\<open>LoadingResult\<close> of the document loader.\<close>

record load_result =
  success :: bool
  loaded_document :: "document option"
  error_message :: string

text \<open>A message of the chat-completion request.\<close>

record llm_message =
  llm_role :: string
  llm_content :: string

text \<open>
  What \<^verbatim>\<open>validate_document_structure\<close> returns next to its verdict: a dictionary read
  at \<^verbatim>\<open>content\<close> and \<^verbatim>\<open>metadata\<close>; \<open>None\<close> in a field is an absent key.
\<close>

record doc_data =
  dd_content :: "string option"
  dd_metadata :: "metadata option"

text \<open>
  The collaborators that are classes or modules outside the UI code, as the functions the
  UI calls on them. Each may raise. The vector store keeps an index of type \<open>'v\<close>;
  \<^verbatim>\<open>add_documents\<close> reports success by its result and leaves the index in some state
  either way. \<^verbatim>\<open>datetime.now().isoformat()\<close> and \<^verbatim>\<open>str(uuid.uuid4())\<close> are read from
  oracles indexed by the number of earlier reads.
\<close>

record 'v env =
  process_uploaded_file :: "upload_file \<Rightarrow> exn + string"
  load_single_document :: "string \<Rightarrow> exn + load_result"
  add_documents :: "'v \<Rightarrow> document list \<Rightarrow> (exn + bool) \<times> 'v"
  clear_index :: "'v \<Rightarrow> 'v"
  now_isoformat :: "nat \<Rightarrow> string"
  uuid4 :: "nat \<Rightarrow> string"
  validate_response_structure :: "rag_response option \<Rightarrow> bool \<times> string"
  validate_document_structure :: "source \<Rightarrow> exn + bool \<times> doc_data"

text \<open>
  The keyword arguments of \<^verbatim>\<open>chat_completion\<close>; the temperature is kept as its decimal
  literal.
\<close>

record llm_options =
  temperature :: "string option"
  max_tokens :: "nat option"

text \<open>The keyword arguments of \<^verbatim>\<open>lesson_plan_pipeline.generate_lesson_plan\<close>.\<close>

record plan_request =
  req_subject :: string
  req_grade_level :: string
  req_timeframe :: string
  req_duration :: string
  req_days_per_week :: "string list"
  req_specific_goals :: "string list"
  req_materials :: "string list"
  req_additional_accommodations :: "string list"
  req_iep_content :: string

text \<open>
  The dictionary \<^verbatim>\<open>app_components\<close>, without the vector store. The LLM client and the
  RAG chain are read with \<^verbatim>\<open>get\<close> and tested for truth, so \<open>None\<close> is an absent key
  or a \<^verbatim>\<open>None\<close> value; the two pipelines are tested with \<^verbatim>\<open>in\<close>, so \<open>None\<close> is an
  absent key, and a key that holds \<^verbatim>\<open>None\<close> is a pipeline whose call raises
  \<^verbatim>\<open>AttributeError\<close>. The LLM response is a dictionary.
\<close>

record app_components =
  llm_client :: "(llm_message list \<Rightarrow> llm_options \<Rightarrow> exn + (string \<rightharpoonup> string) option) option"
  rag_chain :: "(string \<Rightarrow> exn + rag_response option) option"
  iep_pipeline :: "(document \<Rightarrow> exn + iep_result) option"
  lesson_plan_pipeline :: "(plan_request \<Rightarrow> exn + lesson_plan) option"

text \<open>
  Everything a handler can change: the session state, the vector store of
  \<^verbatim>\<open>app_components\<close> (\<open>None\<close> when there is none) with its index, the two oracle
  counters, and the output so far.
\<close>

record 'v world =
  state :: session_state
  vector_store :: "'v option"
  clock :: nat
  uuids :: nat
  trace :: "event list"

definition emit :: "event \<Rightarrow> 'v world \<Rightarrow> 'v world" where
  "emit e w = w\<lparr>trace := trace w @ [e]\<rparr>"

definition modify :: "(session_state \<Rightarrow> session_state) \<Rightarrow> 'v world \<Rightarrow> 'v world" where
  "modify f w = w\<lparr>state := f (state w)\<rparr>"

definition emitted :: "'v world \<Rightarrow> 'v world \<Rightarrow> event list" where
  "emitted w w' = drop (length (trace w)) (trace w')"

section \<open>Sidebar: clearing documents\<close>

text \<open>\<^verbatim>\<open>clear_documents\<close> of \<^verbatim>\<open>ui/components/sidebar.py\<close> and of \<^verbatim>\<open>ui/app.py\<close> (the same text).\<close>

definition clear_documents :: "'v env \<Rightarrow> 'v world \<Rightarrow> 'v world" where
  "clear_documents E w =
     (let w1 = (case vector_store w of
                  None \<Rightarrow> w
                | Some v \<Rightarrow> w\<lparr>vector_store := Some (clear_index E v)\<rparr>);
          w2 = modify (\<lambda>s. s\<lparr>documents_processed := False\<rparr>) w1;
          w3 = modify (\<lambda>s. s\<lparr>documents := []\<rparr>) w2;
          w4 = modify (\<lambda>s. s\<lparr>iep_results := []\<rparr>) w3;
          w5 = modify (\<lambda>s. s\<lparr>lesson_plans := []\<rparr>) w4;
          w6 = modify (update_vector_store_initialized False) w5
      in emit Rerun w6)"

section \<open>Ingestion of uploaded files\<close>

text \<open>Python's \<^verbatim>\<open>str\<close> of a non-negative integer: its decimal digits.\<close>

definition digit_char :: "nat \<Rightarrow> char" where
  "digit_char d = char_of (48 + d)"

fun str_nat :: "nat \<Rightarrow> string" where
  "str_nat n = (if n < 10 then [digit_char n] else str_nat (n div 10) @ [digit_char (n mod 10)])"

declare str_nat.simps [simp del]

text \<open>
  The two \<^verbatim>\<open>except\<close> clauses around the body of the per-file loop, applied to an
  exception raised in that body: the message, \<^verbatim>\<open>processing_success = False\<close> and on to
  the next file; an exception that is not an \<^verbatim>\<open>Exception\<close> is not caught and leaves
  the loop and the function (\<^verbatim>\<open>logger.error\<close> is not modelled). The result is the
  world, \<^verbatim>\<open>processing_success\<close> and the exception that leaves, if any.
\<close>

definition handle_file_exception ::
  "upload_file \<Rightarrow> exn \<Rightarrow> 'v world \<Rightarrow> bool \<Rightarrow> 'v world \<times> bool \<times> exn option" where
  "handle_file_exception file e w ok =
     (case e of
        FileHandlerError m \<Rightarrow>
          (emit (Status Error (''Error handling '' @ name file @ '': '' @ m)) w, False, None)
      | Exception m \<Rightarrow>
          (emit (Status Error (''Unexpected error processing '' @ name file)) w, False, None)
      | BaseException m \<Rightarrow> (w, ok, Some e))"

text \<open>
  One iteration of the loop of \<^verbatim>\<open>process_uploaded_files\<close> in
  \<^verbatim>\<open>ui/components/sidebar.py\<close>. The loop carries the world, the index of the vector
  store, \<^verbatim>\<open>processing_success\<close> and the local counter \<^verbatim>\<open>documents_processed\<close>; an
  iteration returns them together with the exception that leaves it, if any.
  A loading result that claims success without a document makes
  \<^verbatim>\<open>document.metadata\<close> raise \<^verbatim>\<open>AttributeError\<close>.
\<close>

definition process_file ::
  "'v env \<Rightarrow> upload_file \<Rightarrow> 'v world \<times> 'v \<times> bool \<times> nat \<Rightarrow>
   'v world \<times> 'v \<times> bool \<times> nat \<times> exn option" where
  "process_file E file = (\<lambda>(w, v, ok, n).
     let w0 = emit (Status Info (''Processing '' @ name file @ ''...'')) w in
     case process_uploaded_file E file of
       Inl e \<Rightarrow> (case handle_file_exception file e w0 ok of (w', ok', esc) \<Rightarrow> (w', v, ok', n, esc))
     | Inr temp_path \<Rightarrow>
        (case load_single_document E temp_path of
           Inl e \<Rightarrow> (case handle_file_exception file e w0 ok of (w', ok', esc) \<Rightarrow> (w', v, ok', n, esc))
         | Inr res \<Rightarrow>
            if \<not> success res then
              (emit (Status Error (''Error processing '' @ name file @ '': '' @ error_message res)) w0,
               v, False, n, None)
            else
              (case loaded_document res of
                 None \<Rightarrow>
                   (case handle_file_exception file
                           (Exception ''NoneType object has no attribute metadata'') w0 ok of
                      (w', ok', esc) \<Rightarrow> (w', v, ok', n, esc))
               | Some d \<Rightarrow>
                   let d1 = d\<lparr>metadata := (metadata d)(''source'' \<mapsto> name file)\<rparr>;
                       d2 = d1\<lparr>metadata := (metadata d1)(''upload_time'' \<mapsto> now_isoformat E (clock w0))\<rparr>;
                       w1 = w0\<lparr>clock := Suc (clock w0)\<rparr>;
                       d3 = d2\<lparr>metadata := (metadata d2)
                              (''id'' \<mapsto> ''doc_'' @ str_nat (length (documents (state w1))))\<rparr>;
                       w2 = modify (append_documents d3) w1
                   in (case add_documents E v [d3] of
                         (Inl e, v') \<Rightarrow>
                           (case handle_file_exception file e w2 ok of
                              (w', ok', esc) \<Rightarrow> (w', v', ok', n, esc))
                       | (Inr added, v') \<Rightarrow>
                           if \<not> added then
                             (emit (Status Error (''Error adding '' @ name file @ '' to vector store'')) w2,
                              v', False, n, None)
                           else
                             (emit (Status Success (''Successfully processed '' @ name file)) w2,
                              v', ok, Suc n, None)))))"

text \<open>The loop: it ends with the last file, or with the exception that leaves an iteration.\<close>

fun process_files ::
  "'v env \<Rightarrow> upload_file list \<Rightarrow> 'v world \<times> 'v \<times> bool \<times> nat \<times> exn option \<Rightarrow>
   'v world \<times> 'v \<times> bool \<times> nat \<times> exn option" where
  "process_files E [] st = st"
| "process_files E (file # files) (w, v, ok, n, esc) =
     (case esc of
        Some e \<Rightarrow> (w, v, ok, n, esc)
      | None \<Rightarrow> process_files E files (process_file E file (w, v, ok, n)))"

text \<open>
  \<^verbatim>\<open>process_uploaded_files\<close> of \<^verbatim>\<open>ui/components/sidebar.py\<close>. The call
  \<^verbatim>\<open>file_handler.cleanup()\<close> is the last statement of the function and stands in no
  \<^verbatim>\<open>finally\<close>: an exception that leaves the loop leaves the function before it.
\<close>

definition process_uploaded_files :: "'v env \<Rightarrow> upload_file list \<Rightarrow> 'v world \<Rightarrow> 'v world" where
  "process_uploaded_files E uploaded_files w =
     (case vector_store w of
        None \<Rightarrow> emit (Display Error ''Vector store not initialized. Cannot process documents.'') w
      | Some v \<Rightarrow>
         (case process_files E uploaded_files (w, v, True, 0, None) of
            (w1, v1, ok, n, esc) \<Rightarrow>
              let w2 = w1\<lparr>vector_store := Some v1\<rparr> in
              (case esc of
                 Some e \<Rightarrow> emit (Raised e) w2
               | None \<Rightarrow>
                  let w3 = (if ok \<and> 0 < n then
                              emit (Display Success (''Successfully processed '' @ str_nat n @ '' documents!''))
                                (modify (update_vector_store_initialized True \<circ>
                                         (\<lambda>s. s\<lparr>documents_processed := True\<rparr>)) w2)
                            else if 0 < n then
                              emit (Display Warning (''Processed '' @ str_nat n @ '' documents with some errors.'')) w2
                            else
                              emit (Display Error ''Failed to process any documents.'') w2)
                  in emit Cleanup w3)))"

text \<open>
  The loop body of \<^verbatim>\<open>process_uploaded_files\<close> in \<^verbatim>\<open>ui/app.py\<close>: no id is written
  into the metadata, and the result of \<^verbatim>\<open>add_documents\<close> is not read.
\<close>

definition app_process_file ::
  "'v env \<Rightarrow> upload_file \<Rightarrow> 'v world \<times> 'v \<times> bool \<Rightarrow> 'v world \<times> 'v \<times> bool \<times> exn option" where
  "app_process_file E file = (\<lambda>(w, v, ok).
     let w0 = emit (Status Info (''Processing '' @ name file @ ''...'')) w in
     case process_uploaded_file E file of
       Inl e \<Rightarrow> (case handle_file_exception file e w0 ok of (w', ok', esc) \<Rightarrow> (w', v, ok', esc))
     | Inr temp_path \<Rightarrow>
        (case load_single_document E temp_path of
           Inl e \<Rightarrow> (case handle_file_exception file e w0 ok of (w', ok', esc) \<Rightarrow> (w', v, ok', esc))
         | Inr res \<Rightarrow>
            if \<not> success res then
              (emit (Status Error (''Error processing '' @ name file @ '': '' @ error_message res)) w0,
               v, False, None)
            else
              (case loaded_document res of
                 None \<Rightarrow>
                   (case handle_file_exception file
                           (Exception ''NoneType object has no attribute metadata'') w0 ok of
                      (w', ok', esc) \<Rightarrow> (w', v, ok', esc))
               | Some d \<Rightarrow>
                   let d1 = d\<lparr>metadata := (metadata d)(''source'' \<mapsto> name file)\<rparr>;
                       d2 = d1\<lparr>metadata := (metadata d1)(''upload_time'' \<mapsto> now_isoformat E (clock w0))\<rparr>;
                       w1 = w0\<lparr>clock := Suc (clock w0)\<rparr>;
                       w2 = modify (append_documents d2) w1
                   in (case add_documents E v [d2] of
                         (Inl e, v') \<Rightarrow>
                           (case handle_file_exception file e w2 ok of
                              (w', ok', esc) \<Rightarrow> (w', v', ok', esc))
                       | (Inr added, v') \<Rightarrow>
                           (emit (Status Success (''Successfully processed '' @ name file)) w2,
                            v', ok, None)))))"

fun app_process_files ::
  "'v env \<Rightarrow> upload_file list \<Rightarrow> 'v world \<times> 'v \<times> bool \<times> exn option \<Rightarrow>
   'v world \<times> 'v \<times> bool \<times> exn option" where
  "app_process_files E [] st = st"
| "app_process_files E (file # files) (w, v, ok, esc) =
     (case esc of
        Some e \<Rightarrow> (w, v, ok, esc)
      | None \<Rightarrow> app_process_files E files (app_process_file E file (w, v, ok)))"

text \<open>
  \<^verbatim>\<open>process_uploaded_files\<close> of \<^verbatim>\<open>ui/app.py\<close>: the batch is processed only while
  \<^verbatim>\<open>documents_processed\<close> is not set. Here too \<^verbatim>\<open>cleanup()\<close> is the last statement
  and stands in no \<^verbatim>\<open>finally\<close>.
\<close>

definition app_process_uploaded_files :: "'v env \<Rightarrow> upload_file list \<Rightarrow> 'v world \<Rightarrow> 'v world" where
  "app_process_uploaded_files E uploaded_files w =
     (case vector_store w of
        None \<Rightarrow> emit (Display Error ''Vector store not initialized. Cannot process documents.'') w
      | Some v \<Rightarrow>
         if \<not> documents_processed (state w) then
           (case app_process_files E uploaded_files (w, v, True, None) of
              (w1, v1, ok, esc) \<Rightarrow>
                let w2 = w1\<lparr>vector_store := Some v1\<rparr> in
                (case esc of
                   Some e \<Rightarrow> emit (Raised e) w2
                 | None \<Rightarrow>
                    emit Cleanup
                      (if ok then
                         emit (Display Success ''All documents processed successfully!'')
                           (modify (update_vector_store_initialized True \<circ>
                                    (\<lambda>s. s\<lparr>documents_processed := True\<rparr>)) w2)
                       else
                         emit (Display Error ''Error processing some documents.'') w2)))
         else emit Cleanup w)"

section \<open>Chat\<close>

definition fallback_message :: chat_message where
  "fallback_message =
     \<lparr>msg_role = ''assistant'',
      msg_content = ''I can help answer questions about documents once they're uploaded. For now, I can assist with general educational questions.'',
      msg_sources = Some []\<rparr>"

definition chain_error_message :: chat_message where
  "chain_error_message =
     \<lparr>msg_role = ''assistant'',
      msg_content = ''I encountered an error processing your question. Please try a different question or check if documents are properly loaded.'',
      msg_sources = Some []\<rparr>"

definition error_message_data :: chat_message where
  "error_message_data =
     \<lparr>msg_role = ''assistant'',
      msg_content = ''I encountered an error while processing your question. Please try again.'',
      msg_sources = Some []\<rparr>"

text \<open>\<^verbatim>\<open>response.get("source_documents", [])\<close>.\<close>

definition get_source_documents :: "rag_response \<Rightarrow> source list" where
  "get_source_documents r = (case source_documents r of None \<Rightarrow> [] | Some ds \<Rightarrow> ds)"

text \<open>\<^verbatim>\<open>message_data.get("sources")\<close>, an absent key giving nothing to show.\<close>

definition message_sources :: "chat_message \<Rightarrow> source list" where
  "message_sources m = (case msg_sources m of None \<Rightarrow> [] | Some ds \<Rightarrow> ds)"

text \<open>
  Showing one source in \<^verbatim>\<open>chat.py\<close>, as far as it can raise: the call of
  \<^verbatim>\<open>validate_document_structure\<close>, then \<^verbatim>\<open>doc_data["content"]\<close>, read only when the
  verdict is true, then \<^verbatim>\<open>doc_data["metadata"]\<close>, read always. The result is the
  exception raised, if any.
\<close>

definition show_source :: "'v env \<Rightarrow> source \<Rightarrow> exn option" where
  "show_source E doc =
     (case validate_document_structure E doc of
        Inl e \<Rightarrow> Some e
      | Inr (is_valid, dd) \<Rightarrow>
          if is_valid \<and> dd_content dd = None then Some (Exception ''content'')
          else if dd_metadata dd = None then Some (Exception ''metadata'')
          else None)"

text \<open>
  Showing one source in \<^verbatim>\<open>app.py\<close>: \<^verbatim>\<open>doc.page_content\<close> and
  \<^verbatim>\<open>doc.metadata.get('source')\<close>, which a \<^verbatim>\<open>Document\<close> has and another value
  has not (\<^verbatim>\<open>AttributeError\<close>).
\<close>

definition app_show_source :: "source \<Rightarrow> exn option" where
  "app_show_source doc =
     (case doc of
        Doc d \<Rightarrow> None
      | Other x \<Rightarrow> Some (Exception ''object has no attribute page_content''))"

text \<open>The loop over the sources: it stops at the first one that raises.\<close>

fun show_sources :: "(source \<Rightarrow> exn option) \<Rightarrow> source list \<Rightarrow> exn option" where
  "show_sources f [] = None"
| "show_sources f (doc # docs) = (case f doc of Some e \<Rightarrow> Some e | None \<Rightarrow> show_sources f docs)"

text \<open>
  The handler of the outer \<^verbatim>\<open>try\<close> of the chat input, the same in both versions: it
  appends the error message to the chat history, whatever the \<^verbatim>\<open>try\<close> has appended
  before the exception.
\<close>

definition chat_except :: "exn \<Rightarrow> 'v world \<Rightarrow> 'v world" where
  "chat_except e w =
     (if is_exception e then modify (append_messages error_message_data) w
      else emit (Raised e) w)"

text \<open>
  \<^verbatim>\<open>handle_chat_input\<close> of \<^verbatim>\<open>ui/components/chat.py\<close>. \<^verbatim>\<open>st.chat_input\<close> gives
  \<^verbatim>\<open>None\<close> or the submitted text, and an empty text counts as none. Inside the inner
  \<^verbatim>\<open>try\<close>, a chain that raises an \<^verbatim>\<open>Exception\<close>, a response that the validator
  refuses, a \<^verbatim>\<open>None\<close> response and a response without \<^verbatim>\<open>result\<close> all end in the
  inner handler. The message is appended inside the outer \<^verbatim>\<open>try\<close>, and the sources
  are shown after that, still inside it.
\<close>

definition handle_chat_input ::
  "'v env \<Rightarrow> app_components \<Rightarrow> string option \<Rightarrow> 'v world \<Rightarrow> 'v world" where
  "handle_chat_input E C chat_input w =
     (case chat_input of
        None \<Rightarrow> w
      | Some prompt \<Rightarrow>
         if prompt = [] then w
         else
           let w1 = modify (append_messages
                      \<lparr>msg_role = ''user'', msg_content = prompt, msg_sources = None\<rparr>) w
           in (case (case rag_chain C of
                       None \<Rightarrow> Inr fallback_message
                     | Some run \<Rightarrow>
                        (case run prompt of
                           Inl chain_error \<Rightarrow>
                             if is_exception chain_error then Inr chain_error_message
                             else Inl chain_error
                         | Inr response \<Rightarrow>
                            (case validate_response_structure E response of
                               (is_valid, error_msg) \<Rightarrow>
                                 if \<not> is_valid then Inr chain_error_message
                                 else
                                   (case response of
                                      None \<Rightarrow> Inr chain_error_message
                                    | Some r \<Rightarrow>
                                       (case result r of
                                          None \<Rightarrow> Inr chain_error_message
                                        | Some res \<Rightarrow>
                                           Inr \<lparr>msg_role = ''assistant'', msg_content = res,
                                                msg_sources = Some (get_source_documents r)\<rparr>))))) of
                 Inl e \<Rightarrow> chat_except e w1
               | Inr message_data \<Rightarrow>
                  let w2 = modify (append_messages message_data) w1 in
                  (case show_sources (show_source E) (message_sources message_data) of
                     None \<Rightarrow> w2
                   | Some e \<Rightarrow> chat_except e w2)))"

text \<open>
  The chat input of \<^verbatim>\<open>create_chat_tab\<close> in \<^verbatim>\<open>ui/app.py\<close>: one \<^verbatim>\<open>try\<close>, no
  validator; a chain that raises, a \<^verbatim>\<open>None\<close> response and a response without
  \<^verbatim>\<open>result\<close> raise before anything is appended. The message is appended inside the
  \<^verbatim>\<open>try\<close>, and the sources are shown after that, still inside it.
\<close>

definition app_handle_chat_input ::
  "app_components \<Rightarrow> string option \<Rightarrow> 'v world \<Rightarrow> 'v world" where
  "app_handle_chat_input C chat_input w =
     (case chat_input of
        None \<Rightarrow> w
      | Some prompt \<Rightarrow>
         if prompt = [] then w
         else
           let w1 = modify (append_messages
                      \<lparr>msg_role = ''user'', msg_content = prompt, msg_sources = None\<rparr>) w
           in (case (case rag_chain C of
                       Some run \<Rightarrow>
                        (case run prompt of
                           Inl e \<Rightarrow> Inl e
                         | Inr None \<Rightarrow> Inl (Exception ''NoneType object is not subscriptable'')
                         | Inr (Some r) \<Rightarrow>
                            (case result r of
                               None \<Rightarrow> Inl (Exception ''result'')
                             | Some res \<Rightarrow>
                                Inr \<lparr>msg_role = ''assistant'', msg_content = res,
                                     msg_sources = Some (get_source_documents r)\<rparr>))
                     | None \<Rightarrow> Inr fallback_message) of
                 Inl e \<Rightarrow> chat_except e w1
               | Inr message_data \<Rightarrow>
                  let w2 = modify (append_messages message_data) w1 in
                  (case show_sources app_show_source (message_sources message_data) of
                     None \<Rightarrow> w2
                   | Some e \<Rightarrow> chat_except e w2)))"

section \<open>IEP generation\<close>

text \<open>An entry of \<^verbatim>\<open>get_available_documents\<close>, as the IEP tab passes it on.\<close>

record available_document =
  doc_id :: string
  display_name :: string
  doc_source :: string

text \<open>\<^verbatim>\<open>get_document_by_id\<close> of \<^verbatim>\<open>document_utils.py\<close> and \<^verbatim>\<open>app.py\<close>.\<close>

definition get_document_by_id :: "string \<Rightarrow> session_state \<Rightarrow> document option" where
  "get_document_by_id i s = find (\<lambda>doc. metadata doc ''id'' = Some i) (documents s)"

definition exn_str :: "exn \<Rightarrow> string" where
  "exn_str e = (case e of FileHandlerError m \<Rightarrow> m | Exception m \<Rightarrow> m | BaseException m \<Rightarrow> m)"

text \<open>
  The handler \<^verbatim>\<open>except Exception as e\<close> of the generation functions: it shows the
  message after a fixed prefix; an exception that is not an \<^verbatim>\<open>Exception\<close> passes it.
\<close>

definition except_exception :: "string \<Rightarrow> exn \<Rightarrow> 'v world \<Rightarrow> 'v world" where
  "except_exception prefix e w =
     (if is_exception e then emit (Display Error (prefix @ exn_str e)) w else emit (Raised e) w)"

definition iep_messages :: "document \<Rightarrow> llm_message list" where
  "iep_messages doc =
     [\<lparr>llm_role = ''system'',
       llm_content = ''You are an AI assistant that specializes in creating Individualized Education Programs (IEPs) for students with special needs.''\<rparr>,
      \<lparr>llm_role = ''user'',
       llm_content = ''Based on the following document, create a comprehensive IEP with appropriate goals, accommodations, and services. Document content: '' @ page_content doc\<rparr>]"

text \<open>\<^verbatim>\<open>not response or "content" not in response\<close>.\<close>

definition lacks_content :: "(string \<rightharpoonup> string) option \<Rightarrow> bool" where
  "lacks_content response =
     (case response of None \<Rightarrow> True | Some r \<Rightarrow> r = Map.empty \<or> r ''content'' = None)"

text \<open>
  The raw LLM call of \<^verbatim>\<open>handle_iep_generation\<close>, from the lookup of the client on;
  the two versions share it word for word.
\<close>

definition generate_iep_with_llm ::
  "'v env \<Rightarrow> app_components \<Rightarrow> available_document \<Rightarrow> document \<Rightarrow> 'v world \<Rightarrow> 'v world" where
  "generate_iep_with_llm E C selected_doc doc w =
     (case llm_client C of
        None \<Rightarrow> emit (Display Error ''LLM client not initialized. Cannot generate IEP.'') w
      | Some chat_completion \<Rightarrow>
         (case chat_completion (iep_messages doc) \<lparr>temperature = None, max_tokens = None\<rparr> of
            Inl e \<Rightarrow> except_exception ''Error generating IEP: '' e w
          | Inr response \<Rightarrow>
             if lacks_content response then
               emit (Display Error ''Failed to generate IEP content.'') w
             else
               let iep = \<lparr>iep_id = uuid4 E (uuids w),
                          iep_source = display_name selected_doc,
                          iep_source_id = doc_id selected_doc,
                          iep_content = the (the response ''content''),
                          iep_timestamp = now_isoformat E (clock w)\<rparr>
               in modify (append_iep_results iep)
                    (w\<lparr>uuids := Suc (uuids w), clock := Suc (clock w)\<rparr>)))"

text \<open>\<^verbatim>\<open>handle_iep_generation\<close> of \<^verbatim>\<open>ui/components/iep.py\<close>.\<close>

definition handle_iep_generation ::
  "'v env \<Rightarrow> app_components \<Rightarrow> available_document \<Rightarrow> 'v world \<Rightarrow> 'v world" where
  "handle_iep_generation E C selected_doc w =
     (case get_document_by_id (doc_id selected_doc) (state w) of
        None \<Rightarrow> emit (Display Error ''Could not retrieve document for processing.'') w
      | Some doc \<Rightarrow> generate_iep_with_llm E C selected_doc doc w)"

text \<open>
  \<^verbatim>\<open>handle_iep_generation\<close> of \<^verbatim>\<open>ui/app.py\<close>: a pipeline component, when there is
  one, produces the IEP, and its result is stored as it comes.
\<close>

definition app_handle_iep_generation ::
  "'v env \<Rightarrow> app_components \<Rightarrow> available_document \<Rightarrow> 'v world \<Rightarrow> 'v world" where
  "app_handle_iep_generation E C selected_doc w =
     (case get_document_by_id (doc_id selected_doc) (state w) of
        None \<Rightarrow> emit (Display Error ''Could not retrieve document for processing.'') w
      | Some doc \<Rightarrow>
         (case iep_pipeline C of
            Some generate_iep \<Rightarrow>
              (case generate_iep doc of
                 Inl e \<Rightarrow> except_exception ''Error generating IEP: '' e w
               | Inr iep \<Rightarrow> modify (append_iep_results iep) w)
          | None \<Rightarrow> generate_iep_with_llm E C selected_doc doc w))"

section \<open>Lesson plans\<close>

text \<open>
  Python's string operations, on ASCII text: \<^verbatim>\<open>str.lower\<close>, \<^verbatim>\<open>str.strip\<close> (white
  space is the characters 9 to 13, 28 to 31 and 32), \<^verbatim>\<open>str.split("\n")\<close> and
  \<^verbatim>\<open>sep.join\<close>.
\<close>

definition lower_char :: "char \<Rightarrow> char" where
  "lower_char c =
     (if 65 \<le> (of_char c :: nat) \<and> (of_char c :: nat) \<le> 90 then char_of ((of_char c :: nat) + 32)
      else c)"

definition lower :: "string \<Rightarrow> string" where
  "lower s = map lower_char s"

definition is_space :: "char \<Rightarrow> bool" where
  "is_space c =
     (let k = (of_char c :: nat) in (9 \<le> k \<and> k \<le> 13) \<or> (28 \<le> k \<and> k \<le> 31) \<or> k = 32)"

definition strip :: "string \<Rightarrow> string" where
  "strip s = rev (dropWhile is_space (rev (dropWhile is_space s)))"

fun split_newline :: "string \<Rightarrow> string list" where
  "split_newline [] = [[]]"
| "split_newline (c # cs) =
     (if c = CHR 0x0A then [] # split_newline cs
      else (c # hd (split_newline cs)) # tl (split_newline cs))"

fun join :: "string \<Rightarrow> string list \<Rightarrow> string" where
  "join sep [] = []"
| "join sep [x] = x"
| "join sep (x # y # ys) = x @ sep @ join sep (y # ys)"

text \<open>\<^verbatim>\<open>chr(10).join(f'- {x}' for x in xs if x)\<close>.\<close>

definition bullet_lines :: "string list \<Rightarrow> string" where
  "bullet_lines xs = join ''\<newline>'' (map (\<lambda>x. ''- '' @ x) (filter (\<lambda>x. x \<noteq> []) xs))"

text \<open>
  The text of the f-string that both versions use for the prompt; they differ in the
  indentation \<open>ind\<close> only (four blanks in \<^verbatim>\<open>lesson_plan.py\<close>, twelve in \<^verbatim>\<open>app.py\<close>),
  which is part of the string.
\<close>

definition prompt_text ::
  "string \<Rightarrow> string \<Rightarrow> string \<Rightarrow> string \<Rightarrow> string \<Rightarrow> string list \<Rightarrow> string list \<Rightarrow> string list \<Rightarrow>
   string list \<Rightarrow> string \<Rightarrow> string" where
  "prompt_text ind subject grade_level timeframe duration days_per_week goals_list materials_list
     accommodations_list content =
     ''\<newline>'' @ ind @ ''Create a detailed '' @ lower timeframe @ '' lesson plan for '' @ subject
       @ '' for '' @ grade_level @ '' students.\<newline>''
     @ ind @ ''\<newline>''
     @ ind @ ''The plan should be based on the following IEP:\<newline>''
     @ ind @ content @ ''\<newline>''
     @ ind @ ''\<newline>''
     @ ind @ ''Class details:\<newline>''
     @ ind @ ''- Subject: '' @ subject @ ''\<newline>''
     @ ind @ ''- Grade Level: '' @ grade_level @ ''\<newline>''
     @ ind @ ''- Duration: '' @ duration @ ''\<newline>''
     @ ind @ ''- Schedule: ''
       @ (if timeframe = ''Weekly'' then join '', '' days_per_week else ''Daily'') @ ''\<newline>''
     @ ind @ ''\<newline>''
     @ ind @ ''Learning Goals:\<newline>''
     @ ind @ bullet_lines goals_list @ ''\<newline>''
     @ ind @ ''\<newline>''
     @ ind @ ''Materials Needed:\<newline>''
     @ ind @ bullet_lines materials_list @ ''\<newline>''
     @ ind @ ''\<newline>''
     @ ind @ ''Additional Accommodations:\<newline>''
     @ ind @ bullet_lines accommodations_list @ ''\<newline>''
     @ ind @ ''\<newline>''
     @ ind @ ''Please create a comprehensive lesson plan with:\<newline>''
     @ ind @ ''1. Learning objectives\<newline>''
     @ ind @ ''2. Detailed schedule/timeline\<newline>''
     @ ind @ ''3. Teaching strategies with specific IEP accommodations\<newline>''
     @ ind @ ''4. Assessment methods\<newline>''
     @ ind @ ''5. Resources and materials organization\<newline>''
     @ ind @ ''\<newline>''
     @ ind @ ''Format the plan clearly with sections and bullet points where appropriate.\<newline>''
     @ ind"

text \<open>\<^verbatim>\<open>prepare_lesson_plan_prompt\<close> of \<^verbatim>\<open>ui/components/lesson_plan.py\<close>.\<close>

definition prepare_lesson_plan_prompt ::
  "string \<Rightarrow> string \<Rightarrow> string \<Rightarrow> string \<Rightarrow> string list \<Rightarrow> string list \<Rightarrow> string list \<Rightarrow>
   string list \<Rightarrow> iep_result \<Rightarrow> string" where
  "prepare_lesson_plan_prompt subject grade_level timeframe duration days_per_week goals_list
     materials_list accommodations_list selected_iep =
     prompt_text ''    '' subject grade_level timeframe duration days_per_week goals_list
       materials_list accommodations_list (iep_content selected_iep)"

definition lesson_plan_messages :: "string \<Rightarrow> llm_message list" where
  "lesson_plan_messages prompt =
     [\<lparr>llm_role = ''system'',
       llm_content = ''You are an AI assistant specialized in creating educational lesson plans that accommodate students with special needs.''\<rparr>,
      \<lparr>llm_role = ''user'', llm_content = prompt\<rparr>]"

definition lesson_plan_options :: llm_options where
  "lesson_plan_options = \<lparr>temperature = Some ''0.7'', max_tokens = Some 4000\<rparr>"

text \<open>
  \<^verbatim>\<open>x.strip().split("\n") if x else []\<close>; for the goals the source splits without the
  test.
\<close>

definition lines_or_empty :: "string \<Rightarrow> string list" where
  "lines_or_empty x = (if x \<noteq> [] then split_newline (strip x) else [])"

text \<open>
  The end of \<^verbatim>\<open>handle_lesson_plan_generation\<close>, the same in both versions: store the
  plan, make it the current one, report, rerun.
\<close>

definition save_plan :: "lesson_plan \<Rightarrow> 'v world \<Rightarrow> 'v world" where
  "save_plan plan_data w =
     emit Rerun
       (emit (Display Success ''Lesson plan generated successfully!'')
          (modify (\<lambda>s. s\<lparr>current_plan := Some plan_data\<rparr>)
             (modify (append_lesson_plans plan_data) w)))"

text \<open>
  The raw LLM call of \<^verbatim>\<open>handle_lesson_plan_generation\<close>, from the request on, given
  the prompt: the same in both versions.
\<close>

definition complete_lesson_plan ::
  "'v env \<Rightarrow> (llm_message list \<Rightarrow> llm_options \<Rightarrow> exn + (string \<rightharpoonup> string) option) \<Rightarrow> string \<Rightarrow>
   string \<Rightarrow> string \<Rightarrow> string \<Rightarrow> string \<Rightarrow> string list \<Rightarrow> string list \<Rightarrow> string list \<Rightarrow> string list \<Rightarrow>
   string \<Rightarrow> iep_result \<Rightarrow> 'v world \<Rightarrow> 'v world" where
  "complete_lesson_plan E chat_completion prompt subject grade_level timeframe duration
     days_per_week goals_list materials_list accommodations_list selected_iep_id selected_iep w =
     (case chat_completion (lesson_plan_messages prompt) lesson_plan_options of
        Inl e \<Rightarrow> except_exception ''Error generating lesson plan: '' e w
      | Inr response \<Rightarrow>
         if lacks_content response then
           emit (Display Error ''Failed to generate lesson plan.'') w
         else
           let plan_data =
                 \<lparr>plan_id = uuid4 E (uuids w),
                  plan_subject = subject,
                  plan_grade_level = grade_level,
                  plan_duration = duration,
                  plan_timeframe = timeframe,
                  plan_days = days_per_week,
                  plan_specific_goals = goals_list,
                  plan_materials = materials_list,
                  plan_additional_accommodations = accommodations_list,
                  plan_content = the (the response ''content''),
                  plan_source_iep_id = selected_iep_id,
                  plan_source_iep_source = iep_source selected_iep,
                  plan_timestamp = now_isoformat E (clock w)\<rparr>
           in save_plan plan_data (w\<lparr>uuids := Suc (uuids w), clock := Suc (clock w)\<rparr>))"

text \<open>\<^verbatim>\<open>handle_lesson_plan_generation\<close> of \<^verbatim>\<open>ui/components/lesson_plan.py\<close>.\<close>

definition handle_lesson_plan_generation ::
  "'v env \<Rightarrow> app_components \<Rightarrow> string \<Rightarrow> string \<Rightarrow> string \<Rightarrow> string \<Rightarrow> string list \<Rightarrow> string \<Rightarrow>
   string \<Rightarrow> string \<Rightarrow> string \<Rightarrow> 'v world \<Rightarrow> 'v world" where
  "handle_lesson_plan_generation E C subject grade_level timeframe duration days_per_week
     specific_goals materials additional_accommodations selected_iep_id w =
     (case find (\<lambda>iep. iep_id iep = selected_iep_id) (iep_results (state w)) of
        None \<Rightarrow> emit (Display Error ''Selected IEP not found.'') w
      | Some selected_iep \<Rightarrow>
         (case llm_client C of
            None \<Rightarrow> emit (Display Error ''LLM client not initialized. Cannot generate lesson plan.'') w
          | Some chat_completion \<Rightarrow>
             let goals_list = split_newline (strip specific_goals);
                 materials_list = lines_or_empty materials;
                 accommodations_list = lines_or_empty additional_accommodations;
                 prompt = prepare_lesson_plan_prompt subject grade_level timeframe duration
                            days_per_week goals_list materials_list accommodations_list selected_iep
             in complete_lesson_plan E chat_completion prompt subject grade_level timeframe
                  duration days_per_week goals_list materials_list accommodations_list
                  selected_iep_id selected_iep w))"

text \<open>
  \<^verbatim>\<open>handle_lesson_plan_generation\<close> of \<^verbatim>\<open>ui/app.py\<close>: a pipeline component, when
  there is one, produces the plan, and the handler adds the IEP reference to it.
\<close>

definition app_handle_lesson_plan_generation ::
  "'v env \<Rightarrow> app_components \<Rightarrow> string \<Rightarrow> string \<Rightarrow> string \<Rightarrow> string \<Rightarrow> string list \<Rightarrow> string \<Rightarrow>
   string \<Rightarrow> string \<Rightarrow> string \<Rightarrow> 'v world \<Rightarrow> 'v world" where
  "app_handle_lesson_plan_generation E C subject grade_level timeframe duration days_per_week
     specific_goals materials additional_accommodations selected_iep_id w =
     (case find (\<lambda>iep. iep_id iep = selected_iep_id) (iep_results (state w)) of
        None \<Rightarrow> emit (Display Error ''Selected IEP not found.'') w
      | Some selected_iep \<Rightarrow>
         let goals_list = split_newline (strip specific_goals);
             materials_list = lines_or_empty materials;
             accommodations_list = lines_or_empty additional_accommodations
         in (case lesson_plan_pipeline C of
               Some generate_lesson_plan \<Rightarrow>
                 (case generate_lesson_plan
                         \<lparr>req_subject = subject, req_grade_level = grade_level,
                          req_timeframe = timeframe, req_duration = duration,
                          req_days_per_week = days_per_week, req_specific_goals = goals_list,
                          req_materials = materials_list,
                          req_additional_accommodations = accommodations_list,
                          req_iep_content = iep_content selected_iep\<rparr> of
                    Inl e \<Rightarrow> except_exception ''Error generating lesson plan: '' e w
                  | Inr plan_data \<Rightarrow>
                      save_plan (plan_data\<lparr>plan_source_iep_id := selected_iep_id,
                                          plan_source_iep_source := iep_source selected_iep\<rparr>) w)
             | None \<Rightarrow>
                 (case llm_client C of
                    None \<Rightarrow>
                      emit (Display Error ''LLM client not initialized. Cannot generate lesson plan.'') w
                  | Some chat_completion \<Rightarrow>
                      complete_lesson_plan E chat_completion
                        (prompt_text ''            '' subject grade_level timeframe duration
                           days_per_week goals_list materials_list accommodations_list
                           (iep_content selected_iep))
                        subject grade_level timeframe duration days_per_week goals_list
                        materials_list accommodations_list selected_iep_id selected_iep w)))"

text \<open>
  The values of the widgets of the lesson-plan form in one script run: the texts, the
  radio button, the multiselect (shown for a weekly plan only), the select box of IEP ids
  (shown when there is an IEP) and the submit button.
\<close>

record form_input =
  in_subject :: string
  in_grade_level :: string
  in_timeframe :: string
  in_duration :: string
  in_days :: "string list"
  in_specific_goals :: string
  in_materials :: string
  in_additional_accommodations :: string
  in_selected_iep :: string
  in_generate_button :: bool

text \<open>\<^verbatim>\<open>days_per_week\<close> as the form computes it.\<close>

definition form_days :: "form_input \<Rightarrow> string list" where
  "form_days inp = (if in_timeframe inp = ''Weekly'' then in_days inp else [''Daily''])"

text \<open>
  \<^verbatim>\<open>render_lesson_plan_form\<close> of \<^verbatim>\<open>ui/components/lesson_plan.py\<close>. The test
  \<^verbatim>\<open>all([subject, grade_level, duration, specific_goals, selected_iep])\<close> asks each
  string to be non-empty and the selection not to be \<^verbatim>\<open>None\<close>.
\<close>

definition render_lesson_plan_form :: "'v env \<Rightarrow> app_components \<Rightarrow> form_input \<Rightarrow> 'v world \<Rightarrow> 'v world" where
  "render_lesson_plan_form E C inp w =
     (let days_per_week = form_days inp;
          selected_iep = (if iep_results (state w) \<noteq> [] then Some (in_selected_iep inp) else None);
          w1 = (if iep_results (state w) \<noteq> [] then w
                else emit (Display Error ''No IEPs available. Please generate an IEP first.'') w)
      in if in_generate_button inp then
           (if \<not> (in_subject inp \<noteq> [] \<and> in_grade_level inp \<noteq> [] \<and> in_duration inp \<noteq> [] \<and>
                   in_specific_goals inp \<noteq> [] \<and>
                   (case selected_iep of None \<Rightarrow> False | Some i \<Rightarrow> i \<noteq> []))
            then emit (Display Error ''Please fill in all required fields.'') w1
            else handle_lesson_plan_generation E C (in_subject inp) (in_grade_level inp)
                   (in_timeframe inp) (in_duration inp) days_per_week (in_specific_goals inp)
                   (in_materials inp) (in_additional_accommodations inp)
                   (the selected_iep) w1)
         else w1)"

section \<open>Predicates of the properties\<close>

fun is_file_error :: "event \<Rightarrow> bool" where
  "is_file_error (Status Error m) = True"
| "is_file_error e = False"

fun is_file_success :: "event \<Rightarrow> bool" where
  "is_file_success (Status Success m) = True"
| "is_file_success e = False"

text \<open>
  The file handler accepts the file and \<^verbatim>\<open>load_single_document\<close> returns a result
  with \<^verbatim>\<open>success=False\<close>.
\<close>

definition fails_extraction :: "'v env \<Rightarrow> upload_file \<Rightarrow> bool" where
  "fails_extraction E f =
     (case process_uploaded_file E f of
        Inl e \<Rightarrow> False
      | Inr p \<Rightarrow> (case load_single_document E p of Inl e \<Rightarrow> False | Inr r \<Rightarrow> \<not> success r))"

text \<open>The file handler accepts the file and the loader returns success with a document.\<close>

definition extracts :: "'v env \<Rightarrow> upload_file \<Rightarrow> bool" where
  "extracts E f =
     (case process_uploaded_file E f of
        Inl e \<Rightarrow> False
      | Inr p \<Rightarrow> (case load_single_document E p of
                    Inl e \<Rightarrow> False
                  | Inr r \<Rightarrow> success r \<and> loaded_document r \<noteq> None))"

text \<open>The vector store takes every insertion.\<close>

definition index_accepts :: "'v env \<Rightarrow> bool" where
  "index_accepts E = (\<forall>v ds. fst (add_documents E v ds) = Inr True)"

text \<open>Whatever the file handler, the loader and the vector store raise is an \<^verbatim>\<open>Exception\<close>.\<close>

definition raises_only_exceptions :: "'v env \<Rightarrow> bool" where
  "raises_only_exceptions E =
     ((\<forall>f e. process_uploaded_file E f = Inl e \<longrightarrow> is_exception e) \<and>
      (\<forall>p e. load_single_document E p = Inl e \<longrightarrow> is_exception e) \<and>
      (\<forall>v ds e. fst (add_documents E v ds) = Inl e \<longrightarrow> is_exception e))"

text \<open>The ids of a registry, and the registry whose ids follow the positions.\<close>

definition document_ids :: "document list \<Rightarrow> string option list" where
  "document_ids docs = map (\<lambda>d. metadata d ''id'') docs"

definition ids_by_position :: "document list \<Rightarrow> bool" where
  "ids_by_position docs =
     (document_ids docs = map (\<lambda>i. Some (''doc_'' @ str_nat i)) [0..<length docs])"

text \<open>Reading a decimal numeral back.\<close>

definition nat_of_str :: "string \<Rightarrow> nat" where
  "nat_of_str s = foldl (\<lambda>a c. 10 * a + ((of_char c :: nat) - 48)) 0 s"

section \<open>Concrete sessions\<close>

text \<open>
  A session to run the handlers on: a file handler that accepts every upload, a loader that
  fails on one path, a vector store that keeps the documents it is given, an LLM client
  that answers with content and one that answers without.
\<close>

definition demo_env :: "document list env" where
  "demo_env =
     \<lparr>process_uploaded_file = (\<lambda>f. Inr (''/tmp/'' @ name f)),
      load_single_document = (\<lambda>p.
         if p = ''/tmp/bad.pdf'' then
           Inr \<lparr>success = False, loaded_document = None, error_message = ''cannot parse''\<rparr>
         else
           Inr \<lparr>success = True,
                loaded_document = Some \<lparr>page_content = p, metadata = Map.empty\<rparr>,
                error_message = []\<rparr>),
      add_documents = (\<lambda>v ds. (Inr True, v @ ds)),
      clear_index = (\<lambda>v. []),
      now_isoformat = (\<lambda>n. ''t'' @ str_nat n),
      uuid4 = (\<lambda>n. ''u'' @ str_nat n),
      validate_response_structure = (\<lambda>r.
         case r of None \<Rightarrow> (False, ''no response'')
         | Some x \<Rightarrow> (result x \<noteq> None, [])),
      validate_document_structure = (\<lambda>s.
         case s of
           Doc d \<Rightarrow> Inr (True, \<lparr>dd_content = Some (page_content d), dd_metadata = Some (metadata d)\<rparr>)
         | Other x \<Rightarrow> Inl (Exception ''unsupported document type''))\<rparr>"

definition demo_iep :: iep_result where
  "demo_iep =
     \<lparr>iep_id = ''iep-1'', iep_source = ''report.txt'', iep_source_id = ''doc_0'',
      iep_content = ''Reading goals'', iep_timestamp = ''t0''\<rparr>"

definition demo_world :: "document list world" where
  "demo_world = \<lparr>state = initial_state, vector_store = Some [], clock = 0, uuids = 0, trace = []\<rparr>"

definition iep_world :: "document list world" where
  "iep_world = demo_world\<lparr>state := initial_state\<lparr>iep_results := [demo_iep]\<rparr>\<rparr>"

definition demo_components :: app_components where
  "demo_components =
     \<lparr>llm_client = Some (\<lambda>msgs opts. Inr (Some [''content'' \<mapsto> ''generated text''])),
      rag_chain = None, iep_pipeline = None, lesson_plan_pipeline = None\<rparr>"

definition doc_world :: "document list world" where
  "doc_world = demo_world\<lparr>state := initial_state\<lparr>documents :=
     [\<lparr>page_content = ''Student reads at grade 2 level'',
       metadata = [''source'' \<mapsto> ''report.txt'', ''upload_time'' \<mapsto> ''t0'', ''id'' \<mapsto> ''doc_0'']\<rparr>]\<rparr>\<rparr>"

definition silent_components :: app_components where
  "silent_components =
     \<lparr>llm_client = Some (\<lambda>msgs opts. Inr (Some [''role'' \<mapsto> ''assistant''])),
      rag_chain = Some (\<lambda>q. Inl (Exception ''index not loaded'')),
      iep_pipeline = None, lesson_plan_pipeline = None\<rparr>"

definition report_doc :: available_document where
  "report_doc = \<lparr>doc_id = ''doc_0'', display_name = ''report.txt'', doc_source = ''report.txt''\<rparr>"

definition weekly_without_days :: form_input where
  "weekly_without_days =
     \<lparr>in_subject = ''Reading'', in_grade_level = ''Grade 2'', in_timeframe = ''Weekly'',
      in_duration = ''45 minutes'', in_days = [], in_specific_goals = ''Improve reading fluency'',
      in_materials = [], in_additional_accommodations = [], in_selected_iep = ''iep-1'',
      in_generate_button = True\<rparr>"

definition demo_files :: "upload_file list" where
  "demo_files =
     [\<lparr>name = ''a.txt'', data = ''alpha''\<rparr>, \<lparr>name = ''bad.pdf'', data = ''%PDF''\<rparr>,
      \<lparr>name = ''c.txt'', data = ''gamma''\<rparr>]"

definition rejecting_env :: "document list env" where
  "rejecting_env = demo_env\<lparr>add_documents := (\<lambda>v ds. (Inr False, v))\<rparr>"

definition first_file :: upload_file where
  "first_file = \<lparr>name = ''a.txt'', data = ''alpha''\<rparr>"

definition other_file :: upload_file where
  "other_file = \<lparr>name = ''c.txt'', data = ''gamma''\<rparr>"

definition registered_first :: document where
  "registered_first =
     \<lparr>page_content = ''/tmp/a.txt'',
      metadata = [''source'' \<mapsto> ''a.txt'', ''upload_time'' \<mapsto> ''t0'', ''id'' \<mapsto> ''doc_0'']\<rparr>"

text \<open>A chain that answers with a source that is a dictionary, not a \<^verbatim>\<open>Document\<close>.\<close>

definition dict_source_components :: app_components where
  "dict_source_components =
     \<lparr>llm_client = None,
      rag_chain = Some (\<lambda>q. Inr (Some \<lparr>result = Some ''Grade 2'',
                  source_documents = Some [Other ''{page_content: Student reads at grade 2 level}'']\<rparr>)),
      iep_pipeline = None, lesson_plan_pipeline = None\<rparr>"

text \<open>A loader that is interrupted on the second file.\<close>

definition interrupted_env :: "document list env" where
  "interrupted_env =
     demo_env\<lparr>load_single_document := (\<lambda>p.
        if p = ''/tmp/c.txt'' then Inl (BaseException ''KeyboardInterrupt'')
        else load_single_document demo_env p)\<rparr>"

section \<open>Properties\<close>

subsection \<open>The world\<close>

lemma trace_emit [simp]: "trace (emit e w) = trace w @ [e]"
  and state_emit [simp]: "state (emit e w) = state w"
  and vector_store_emit [simp]: "vector_store (emit e w) = vector_store w"
  and clock_emit [simp]: "clock (emit e w) = clock w"
  and uuids_emit [simp]: "uuids (emit e w) = uuids w"
  by (simp_all add: emit_def)

lemma trace_modify [simp]: "trace (modify f w) = trace w"
  and state_modify [simp]: "state (modify f w) = f (state w)"
  and vector_store_modify [simp]: "vector_store (modify f w) = vector_store w"
  and clock_modify [simp]: "clock (modify f w) = clock w"
  and uuids_modify [simp]: "uuids (modify f w) = uuids w"
  by (simp_all add: modify_def)

lemma emitted_append: "trace w' = trace w @ evs \<Longrightarrow> emitted w w' = evs"
  by (simp add: emitted_def)

lemma emitted_emit [simp]: "emitted w (emit e w) = [e]"
  by (simp add: emitted_def)

lemma find_absent: "i \<notin> f ` set xs \<Longrightarrow> find (\<lambda>x. f x = i) xs = None"
  by (auto simp: find_None_iff)

subsection \<open>Clearing\<close>


text \<open>
  C4. The clear-documents action empties the documents, IEP and lesson-plan collections and
  resets the vector-store-initialized flag, and leaves the chat messages and the query
  log as they were.
\<close>

theorem clear_documents_cascade:
  "documents (state (clear_documents E w)) = [] \<and>
   iep_results (state (clear_documents E w)) = [] \<and>
   lesson_plans (state (clear_documents E w)) = [] \<and>
   vector_store_initialized (system (state (clear_documents E w))) = False \<and>
   messages (state (clear_documents E w)) = messages (state w) \<and>
   rag_queries (state (clear_documents E w)) = rag_queries (state w)"
  by (simp add: clear_documents_def modify_def emit_def update_vector_store_initialized_def
      Let_def split: option.split)

subsection \<open>Lesson-plan requests\<close>

text \<open>
  C1. A lesson-plan request whose \<^verbatim>\<open>source_iep_id\<close> is the id of no IEP in
  \<^verbatim>\<open>iep_results\<close> ends with the error "Selected IEP not found." and leaves the whole
  session state, the lesson plans among it, as it was; in both versions of the handler.
\<close>

theorem lesson_plan_unknown_iep:
  assumes "selected_iep_id \<notin> iep_id ` set (iep_results (state w))"
  shows "state (handle_lesson_plan_generation E C subject grade_level timeframe duration
             days_per_week specific_goals materials additional_accommodations selected_iep_id w)
           = state w \<and>
         emitted w (handle_lesson_plan_generation E C subject grade_level timeframe duration
             days_per_week specific_goals materials additional_accommodations selected_iep_id w)
           = [Display Error ''Selected IEP not found.''] \<and>
         state (app_handle_lesson_plan_generation E C subject grade_level timeframe duration
             days_per_week specific_goals materials additional_accommodations selected_iep_id w)
           = state w \<and>
         emitted w (app_handle_lesson_plan_generation E C subject grade_level timeframe duration
             days_per_week specific_goals materials additional_accommodations selected_iep_id w)
           = [Display Error ''Selected IEP not found.'']"
  using find_absent [OF assms]
  by (simp add: handle_lesson_plan_generation_def app_handle_lesson_plan_generation_def)

theorem lesson_plan_unknown_iep_witness:
  "''iep-2'' \<notin> iep_id ` set (iep_results (state iep_world)) \<and>
   lesson_plans (state (handle_lesson_plan_generation demo_env demo_components ''Reading''
       ''Grade 2'' ''Daily'' ''45 minutes'' [''Daily''] ''Fluency'' [] [] ''iep-2'' iep_world)) = [] \<and>
   emitted iep_world (handle_lesson_plan_generation demo_env demo_components ''Reading''
       ''Grade 2'' ''Daily'' ''45 minutes'' [''Daily''] ''Fluency'' [] [] ''iep-2'' iep_world)
     = [Display Error ''Selected IEP not found.'']"
proof -
  have h: "''iep-2'' \<notin> iep_id ` set (iep_results (state iep_world))"
    by (simp add: iep_world_def demo_iep_def)
  have s: "lesson_plans (state iep_world) = []"
    by (simp add: iep_world_def initial_state_def)
  show ?thesis
    using h s lesson_plan_unknown_iep [OF h, of demo_env demo_components "''Reading''"
       "''Grade 2''" "''Daily''" "''45 minutes''" "[''Daily'']" "''Fluency''" "[]" "[]"]
    by simp
qed

text \<open>
  C5. Two assemblies of the lesson-plan prompt with the same subject, grade level,
  timeframe, duration, days, goals, materials, accommodations and IEP content give the
  same string, whatever else the two IEP dictionaries hold.
\<close>

theorem prompt_deterministic:
  assumes "subject1 = subject2" and "grade_level1 = grade_level2" and "timeframe1 = timeframe2"
    and "duration1 = duration2" and "days1 = days2" and "goals1 = goals2"
    and "materials1 = materials2" and "accommodations1 = accommodations2"
    and "iep_content iep1 = iep_content iep2"
  shows "prepare_lesson_plan_prompt subject1 grade_level1 timeframe1 duration1 days1 goals1
           materials1 accommodations1 iep1
         = prepare_lesson_plan_prompt subject2 grade_level2 timeframe2 duration2 days2 goals2
           materials2 accommodations2 iep2"
  using assms by (simp add: prepare_lesson_plan_prompt_def)


theorem prompt_deterministic_witness:
  "iep_content demo_iep = iep_content (demo_iep\<lparr>iep_id := ''iep-9'', iep_timestamp := ''t5''\<rparr>) \<and>
   prepare_lesson_plan_prompt ''Reading'' ''Grade 2'' ''Weekly'' ''45 minutes''
       [''Monday'', ''Friday''] [''Fluency''] [] [] demo_iep
   = prepare_lesson_plan_prompt ''Reading'' ''Grade 2'' ''Weekly'' ''45 minutes''
       [''Monday'', ''Friday''] [''Fluency''] [] []
       (demo_iep\<lparr>iep_id := ''iep-9'', iep_timestamp := ''t5''\<rparr>)"
proof -
  have h: "iep_content demo_iep
             = iep_content (demo_iep\<lparr>iep_id := ''iep-9'', iep_timestamp := ''t5''\<rparr>)"
    by simp
  show ?thesis
    using h prompt_deterministic [OF refl refl refl refl refl refl refl refl h] by simp
qed

text \<open>
  The days of a stored plan are the days the form passes on; for a daily plan that is the
  one entry "Daily".
\<close>

lemma handler_appends_plan:
  "lesson_plans (state (handle_lesson_plan_generation E C subject grade_level timeframe duration
       days_per_week specific_goals materials additional_accommodations selected_iep_id w))
     = lesson_plans (state w) \<or>
   (\<exists>plan. lesson_plans (state (handle_lesson_plan_generation E C subject grade_level timeframe
       duration days_per_week specific_goals materials additional_accommodations selected_iep_id w))
     = lesson_plans (state w) @ [plan] \<and> plan_days plan = days_per_week)"
  by (simp add: handle_lesson_plan_generation_def complete_lesson_plan_def save_plan_def
      append_lesson_plans_def except_exception_def Let_def split: option.split sum.split)

lemma daily_days_stored:
  assumes "in_timeframe inp = ''Daily''"
  shows "lesson_plans (state (render_lesson_plan_form E C inp w)) = lesson_plans (state w) \<or>
         (\<exists>plan. lesson_plans (state (render_lesson_plan_form E C inp w))
                   = lesson_plans (state w) @ [plan] \<and> plan_days plan = [''Daily''])"
proof -
  have d: "form_days inp = [''Daily'']" using assms by (simp add: form_days_def)
  show ?thesis
  proof (cases "iep_results (state w) = []")
    case True
    then show ?thesis by (simp add: render_lesson_plan_form_def Let_def)
  next
    case False
    show ?thesis
      using False d
        handler_appends_plan [of E C "in_subject inp" "in_grade_level inp" "in_timeframe inp"
          "in_duration inp" "[''Daily'']" "in_specific_goals inp" "in_materials inp"
          "in_additional_accommodations inp" "in_selected_iep inp" w]
      by (simp add: render_lesson_plan_form_def Let_def)
  qed
qed

text \<open>
  C6 asks that a weekly request with no day selected be refused. The form does not refuse
  it: with every starred text filled in and an existing IEP selected, the required-field
  test passes, the plan is generated and it is stored with an empty list of days.
\<close>

theorem weekly_plan_without_days_is_stored:
  "map plan_days (lesson_plans (state
      (render_lesson_plan_form demo_env demo_components weekly_without_days iep_world))) = [[]] \<and>
   emitted iep_world (render_lesson_plan_form demo_env demo_components weekly_without_days iep_world)
     = [Display Success ''Lesson plan generated successfully!'', Rerun]"
  by (simp add: render_lesson_plan_form_def weekly_without_days_def iep_world_def demo_world_def
      initial_state_def demo_iep_def demo_components_def form_days_def
      handle_lesson_plan_generation_def complete_lesson_plan_def lacks_content_def
      save_plan_def append_lesson_plans_def emitted_def Let_def)

subsection \<open>IEP generation\<close>

text \<open>
  C7. When the chat completion answers an IEP request with nothing or with a dictionary
  without \<^verbatim>\<open>content\<close>, the handler reports "Failed to generate IEP content." and the
  session state, \<^verbatim>\<open>iep_results\<close> among it, is unchanged; in \<^verbatim>\<open>app.py\<close> this is the
  path taken when no IEP pipeline is configured.
\<close>

theorem iep_generation_without_content:
  assumes "get_document_by_id (doc_id selected_doc) (state w) = Some doc"
    and "llm_client C = Some chat_completion"
    and "chat_completion (iep_messages doc) \<lparr>temperature = None, max_tokens = None\<rparr> = Inr response"
    and "lacks_content response"
  shows "state (handle_iep_generation E C selected_doc w) = state w \<and>
         emitted w (handle_iep_generation E C selected_doc w)
           = [Display Error ''Failed to generate IEP content.''] \<and>
         (iep_pipeline C = None \<longrightarrow>
            state (app_handle_iep_generation E C selected_doc w) = state w \<and>
            emitted w (app_handle_iep_generation E C selected_doc w)
              = [Display Error ''Failed to generate IEP content.''])"
  using assms
  by (simp add: handle_iep_generation_def app_handle_iep_generation_def generate_iep_with_llm_def)

theorem iep_generation_without_content_witness:
  "iep_results (state (handle_iep_generation demo_env silent_components report_doc doc_world)) = [] \<and>
   emitted doc_world (handle_iep_generation demo_env silent_components report_doc doc_world)
     = [Display Error ''Failed to generate IEP content.''] \<and>
   iep_results (state (app_handle_iep_generation demo_env silent_components report_doc doc_world)) = [] \<and>
   emitted doc_world (app_handle_iep_generation demo_env silent_components report_doc doc_world)
     = [Display Error ''Failed to generate IEP content.'']"
proof -
  let ?d = "\<lparr>page_content = ''Student reads at grade 2 level'',
       metadata = [''source'' \<mapsto> ''report.txt'', ''upload_time'' \<mapsto> ''t0'', ''id'' \<mapsto> ''doc_0'']\<rparr>"
  let ?chat = "\<lambda>(msgs :: llm_message list) (opts :: llm_options).
       (Inr (Some [''role'' \<mapsto> ''assistant'']) :: exn + (string \<rightharpoonup> string) option)"
  have a: "get_document_by_id (doc_id report_doc) (state doc_world) = Some ?d"
    by (simp add: get_document_by_id_def report_doc_def doc_world_def)
  have b: "llm_client silent_components = Some ?chat"
    by (simp add: silent_components_def)
  have c: "?chat (iep_messages ?d) \<lparr>temperature = None, max_tokens = None\<rparr>
             = Inr (Some [''role'' \<mapsto> ''assistant''])"
    by simp
  have d: "lacks_content (Some [''role'' \<mapsto> ''assistant''])"
    by (simp add: lacks_content_def)
  have e: "iep_pipeline silent_components = None"
    by (simp add: silent_components_def)
  have f: "iep_results (state doc_world) = []"
    by (simp add: doc_world_def initial_state_def)
  show ?thesis
    using iep_generation_without_content [OF a b c d, of demo_env] e f by simp
qed

subsection \<open>Chat\<close>

text \<open>
  Where nothing is raised after the reply is appended, one prompt appends two messages:
  the user's and one of the assistant. That covers a missing chain, a chain that raises
  an \<^verbatim>\<open>Exception\<close>, a \<^verbatim>\<open>None\<close> response, a response without \<^verbatim>\<open>result\<close> and a
  response the validator refuses, none of which has sources to show.
\<close>

lemma chat_two_messages_when_shown:
  assumes "prompt \<noteq> []"
    and "\<And>run e. rag_chain C = Some run \<Longrightarrow> run prompt = Inl e \<Longrightarrow> is_exception e"
    and "\<And>run r. rag_chain C = Some run \<Longrightarrow> run prompt = Inr (Some r) \<Longrightarrow>
           show_sources (show_source E) (get_source_documents r) = None \<and>
           show_sources app_show_source (get_source_documents r) = None"
  shows "(\<exists>m. messages (state (handle_chat_input E C (Some prompt) w))
               = messages (state w)
                 @ [\<lparr>msg_role = ''user'', msg_content = prompt, msg_sources = None\<rparr>, m]
             \<and> msg_role m = ''assistant'') \<and>
         (\<exists>m. messages (state (app_handle_chat_input C (Some prompt) w))
               = messages (state w)
                 @ [\<lparr>msg_role = ''user'', msg_content = prompt, msg_sources = None\<rparr>, m]
             \<and> msg_role m = ''assistant'')"
proof (cases "rag_chain C")
  case None
  then show ?thesis
    using assms(1)
    by (simp add: handle_chat_input_def app_handle_chat_input_def append_messages_def Let_def
        fallback_message_def message_sources_def)
next
  case (Some run)
  show ?thesis
  proof (cases "run prompt")
    case (Inl e)
    then have "is_exception e" using assms(2) Some by blast
    then show ?thesis
      using assms(1) Some Inl
      by (simp add: handle_chat_input_def app_handle_chat_input_def append_messages_def Let_def
          chain_error_message_def error_message_data_def message_sources_def chat_except_def
          is_exception_def)
  next
    case (Inr response)
    show ?thesis
    proof (cases response)
      case None
      then show ?thesis
        using assms(1) Some Inr
        by (simp add: handle_chat_input_def app_handle_chat_input_def append_messages_def Let_def
            chain_error_message_def error_message_data_def message_sources_def chat_except_def
            is_exception_def split: prod.split)
    next
      case r: (Some r)
      have sh: "show_sources (show_source E) (get_source_documents r) = None"
        "show_sources app_show_source (get_source_documents r) = None"
        using assms(3) Some Inr r by blast+
      show ?thesis
        using assms(1) Some Inr r sh
        by (simp add: handle_chat_input_def app_handle_chat_input_def append_messages_def Let_def
            chain_error_message_def error_message_data_def message_sources_def chat_except_def
            is_exception_def split: prod.split option.split)
    qed
  qed
qed

text \<open>
  C10 asks for exactly two messages per prompt, also when the chain answers with an
  invalid structure. With an answer whose source is not a \<^verbatim>\<open>Document\<close>, the reply
  is appended, showing the source raises, and the handler appends its error message as
  well: one prompt leaves three messages, the user's and two of the assistant.
\<close>

theorem chat_appends_three:
  "messages (state (app_handle_chat_input dict_source_components (Some ''What level?'') demo_world))
     = [\<lparr>msg_role = ''user'', msg_content = ''What level?'', msg_sources = None\<rparr>,
        \<lparr>msg_role = ''assistant'', msg_content = ''Grade 2'',
         msg_sources = Some [Other ''{page_content: Student reads at grade 2 level}'']\<rparr>,
        error_message_data] \<and>
   messages (state (handle_chat_input demo_env dict_source_components (Some ''What level?'')
                      demo_world))
     = [\<lparr>msg_role = ''user'', msg_content = ''What level?'', msg_sources = None\<rparr>,
        \<lparr>msg_role = ''assistant'', msg_content = ''Grade 2'',
         msg_sources = Some [Other ''{page_content: Student reads at grade 2 level}'']\<rparr>,
        error_message_data]"
  by (simp add: app_handle_chat_input_def handle_chat_input_def dict_source_components_def
      demo_world_def demo_env_def initial_state_def append_messages_def modify_def
      get_source_documents_def message_sources_def show_source_def app_show_source_def
      chat_except_def is_exception_def Let_def)

subsection \<open>Ingestion: one iteration and the loop\<close>

lemma handle_file_exception_cases:
  "(\<exists>m. handle_file_exception f e (w :: 'v world) ok = (emit (Status Error m) w, False, None)) \<or>
   (\<not> is_exception e \<and> handle_file_exception f e w ok = (w, ok, Some e))"
proof (cases e)
  case (FileHandlerError x)
  then have "handle_file_exception f e w ok
               = (emit (Status Error (''Error handling '' @ name f @ '': '' @ x)) w, False, None)"
    by (simp add: handle_file_exception_def)
  then show ?thesis by blast
next
  case (Exception x)
  then have "handle_file_exception f e w ok
               = (emit (Status Error (''Unexpected error processing '' @ name f)) w, False, None)"
    by (simp add: handle_file_exception_def)
  then show ?thesis by blast
next
  case (BaseException x)
  then show ?thesis by (simp add: handle_file_exception_def is_exception_def)
qed

text \<open>
  The ways an iteration can end: with an error and no document, with an error and the
  document registered, with success, or with an exception that leaves the loop, before or
  after the document is registered.
\<close>

lemma process_file_outcome:
  "(\<exists>m. process_file E f (w, v, ok, n) =
         (emit (Status Error m) (emit (Status Info (''Processing '' @ name f @ ''...'')) w),
          v, False, n, None)) \<or>
   (\<exists>m d v'. metadata d ''id'' = Some (''doc_'' @ str_nat (length (documents (state w)))) \<and>
         process_file E f (w, v, ok, n) =
         (emit (Status Error m)
            (modify (append_documents d)
               ((emit (Status Info (''Processing '' @ name f @ ''...'')) w)\<lparr>clock := Suc (clock w)\<rparr>)),
          v', False, n, None)) \<or>
   (\<exists>d v'. metadata d ''id'' = Some (''doc_'' @ str_nat (length (documents (state w)))) \<and>
         process_file E f (w, v, ok, n) =
         (emit (Status Success (''Successfully processed '' @ name f))
            (modify (append_documents d)
               ((emit (Status Info (''Processing '' @ name f @ ''...'')) w)\<lparr>clock := Suc (clock w)\<rparr>)),
          v', ok, Suc n, None)) \<or>
   (\<exists>e. \<not> is_exception e \<and>
         (process_uploaded_file E f = Inl e \<or> (\<exists>p. load_single_document E p = Inl e)) \<and>
         process_file E f (w, v, ok, n) =
         (emit (Status Info (''Processing '' @ name f @ ''...'')) w, v, ok, n, Some e)) \<or>
   (\<exists>e d v'. \<not> is_exception e \<and> (\<exists>ds. fst (add_documents E v ds) = Inl e) \<and>
         metadata d ''id'' = Some (''doc_'' @ str_nat (length (documents (state w)))) \<and>
         process_file E f (w, v, ok, n) =
         (modify (append_documents d)
            ((emit (Status Info (''Processing '' @ name f @ ''...'')) w)\<lparr>clock := Suc (clock w)\<rparr>),
          v', ok, n, Some e))"
proof -
  let ?w0 = "emit (Status Info (''Processing '' @ name f @ ''...'')) w"
  show ?thesis
  proof (cases "process_uploaded_file E f")
    case (Inl e)
    from handle_file_exception_cases [of f e ?w0 ok] show ?thesis
    proof (elim disjE exE conjE)
      fix m assume "handle_file_exception f e ?w0 ok = (emit (Status Error m) ?w0, False, None)"
      then have "process_file E f (w, v, ok, n) = (emit (Status Error m) ?w0, v, False, n, None)"
        using Inl by (simp add: process_file_def)
      then show ?thesis by blast
    next
      assume "\<not> is_exception e" and "handle_file_exception f e ?w0 ok = (?w0, ok, Some e)"
      then have "\<not> is_exception e \<and>
          (process_uploaded_file E f = Inl e \<or> (\<exists>p. load_single_document E p = Inl e)) \<and>
          process_file E f (w, v, ok, n) = (?w0, v, ok, n, Some e)"
        using Inl by (simp add: process_file_def)
      then show ?thesis by blast
    qed
  next
    case p: (Inr p)
    show ?thesis
    proof (cases "load_single_document E p")
      case (Inl e)
      from handle_file_exception_cases [of f e ?w0 ok] show ?thesis
      proof (elim disjE exE conjE)
        fix m assume "handle_file_exception f e ?w0 ok = (emit (Status Error m) ?w0, False, None)"
        then have "process_file E f (w, v, ok, n) = (emit (Status Error m) ?w0, v, False, n, None)"
          using p Inl by (simp add: process_file_def)
        then show ?thesis by blast
      next
        assume "\<not> is_exception e" and "handle_file_exception f e ?w0 ok = (?w0, ok, Some e)"
        then have "\<not> is_exception e \<and>
            (process_uploaded_file E f = Inl e \<or> (\<exists>p. load_single_document E p = Inl e)) \<and>
            process_file E f (w, v, ok, n) = (?w0, v, ok, n, Some e)"
          using p Inl by (auto simp: process_file_def)
        then show ?thesis by blast
      qed
    next
      case r: (Inr r)
      show ?thesis
      proof (cases "success r")
        case False
        have "process_file E f (w, v, ok, n) =
               (emit (Status Error (''Error processing '' @ name f @ '': '' @ error_message r)) ?w0,
                v, False, n, None)"
          using p r False by (simp add: process_file_def)
        then show ?thesis by blast
      next
        case s: True
        show ?thesis
        proof (cases "loaded_document r")
          case None
          have "process_file E f (w, v, ok, n) =
                 (emit (Status Error (''Unexpected error processing '' @ name f)) ?w0,
                  v, False, n, None)"
            using p r s None by (simp add: process_file_def handle_file_exception_def)
          then show ?thesis by blast
        next
          case d: (Some d0)
          let ?d = "d0\<lparr>metadata := (metadata d0)(''source'' \<mapsto> name f,
                       ''upload_time'' \<mapsto> now_isoformat E (clock w),
                       ''id'' \<mapsto> ''doc_'' @ str_nat (length (documents (state w))))\<rparr>"
          let ?w2 = "modify (append_documents ?d) (?w0\<lparr>clock := Suc (clock w)\<rparr>)"
          obtain res v' where a: "add_documents E v [?d] = (res, v')"
            by (cases "add_documents E v [?d]")
          have i: "metadata ?d ''id'' = Some (''doc_'' @ str_nat (length (documents (state w))))"
            by simp
          show ?thesis
          proof (cases res)
            case (Inl e)
            from handle_file_exception_cases [of f e ?w2 ok] show ?thesis
            proof (elim disjE exE conjE)
              fix m assume "handle_file_exception f e ?w2 ok = (emit (Status Error m) ?w2, False, None)"
              then have "process_file E f (w, v, ok, n) = (emit (Status Error m) ?w2, v', False, n, None)"
                using p r s d a Inl by (simp add: process_file_def Let_def)
              with i show ?thesis by blast
            next
              assume ne: "\<not> is_exception e" and "handle_file_exception f e ?w2 ok = (?w2, ok, Some e)"
              then have "process_file E f (w, v, ok, n) = (?w2, v', ok, n, Some e)"
                using p r s d a Inl by (simp add: process_file_def Let_def)
              moreover have "\<exists>ds. fst (add_documents E v ds) = Inl e"
                using a Inl by (intro exI [of _ "[?d]"]) simp
              ultimately show ?thesis using i ne by blast
            qed
          next
            case (Inr added)
            show ?thesis
            proof (cases added)
              case True
              have "process_file E f (w, v, ok, n) =
                   (emit (Status Success (''Successfully processed '' @ name f)) ?w2,
                    v', ok, Suc n, None)"
                using p r s d a Inr True by (simp add: process_file_def Let_def)
              with i show ?thesis by blast
            next
              case False
              have "process_file E f (w, v, ok, n) =
                   (emit (Status Error (''Error adding '' @ name f @ '' to vector store'')) ?w2,
                    v', False, n, None)"
                using p r s d a Inr False by (simp add: process_file_def Let_def)
              with i show ?thesis by blast
            qed
          qed
        qed
      qed
    qed
  qed
qed

lemma app_process_file_outcome:
  "(\<exists>m. app_process_file E f (w, v, ok) =
         (emit (Status Error m) (emit (Status Info (''Processing '' @ name f @ ''...'')) w),
          v, False, None)) \<or>
   (\<exists>m d v'. app_process_file E f (w, v, ok) =
         (emit (Status Error m)
            (modify (append_documents d)
               ((emit (Status Info (''Processing '' @ name f @ ''...'')) w)\<lparr>clock := Suc (clock w)\<rparr>)),
          v', False, None)) \<or>
   (\<exists>d v'. app_process_file E f (w, v, ok) =
         (emit (Status Success (''Successfully processed '' @ name f))
            (modify (append_documents d)
               ((emit (Status Info (''Processing '' @ name f @ ''...'')) w)\<lparr>clock := Suc (clock w)\<rparr>)),
          v', ok, None)) \<or>
   (\<exists>e. \<not> is_exception e \<and>
         (process_uploaded_file E f = Inl e \<or> (\<exists>p. load_single_document E p = Inl e)) \<and>
         app_process_file E f (w, v, ok) =
         (emit (Status Info (''Processing '' @ name f @ ''...'')) w, v, ok, Some e)) \<or>
   (\<exists>e d v'. \<not> is_exception e \<and> (\<exists>ds. fst (add_documents E v ds) = Inl e) \<and>
         app_process_file E f (w, v, ok) =
         (modify (append_documents d)
            ((emit (Status Info (''Processing '' @ name f @ ''...'')) w)\<lparr>clock := Suc (clock w)\<rparr>),
          v', ok, Some e))"
proof -
  let ?w0 = "emit (Status Info (''Processing '' @ name f @ ''...'')) w"
  show ?thesis
  proof (cases "process_uploaded_file E f")
    case (Inl e)
    from handle_file_exception_cases [of f e ?w0 ok] show ?thesis
    proof (elim disjE exE conjE)
      fix m assume "handle_file_exception f e ?w0 ok = (emit (Status Error m) ?w0, False, None)"
      then have "app_process_file E f (w, v, ok) = (emit (Status Error m) ?w0, v, False, None)"
        using Inl by (simp add: app_process_file_def)
      then show ?thesis by blast
    next
      assume "\<not> is_exception e" and "handle_file_exception f e ?w0 ok = (?w0, ok, Some e)"
      then have "\<not> is_exception e \<and>
          (process_uploaded_file E f = Inl e \<or> (\<exists>p. load_single_document E p = Inl e)) \<and>
          app_process_file E f (w, v, ok) = (?w0, v, ok, Some e)"
        using Inl by (simp add: app_process_file_def)
      then show ?thesis by blast
    qed
  next
    case p: (Inr p)
    show ?thesis
    proof (cases "load_single_document E p")
      case (Inl e)
      from handle_file_exception_cases [of f e ?w0 ok] show ?thesis
      proof (elim disjE exE conjE)
        fix m assume "handle_file_exception f e ?w0 ok = (emit (Status Error m) ?w0, False, None)"
        then have "app_process_file E f (w, v, ok) = (emit (Status Error m) ?w0, v, False, None)"
          using p Inl by (simp add: app_process_file_def)
        then show ?thesis by blast
      next
        assume "\<not> is_exception e" and "handle_file_exception f e ?w0 ok = (?w0, ok, Some e)"
        then have "\<not> is_exception e \<and>
            (process_uploaded_file E f = Inl e \<or> (\<exists>p. load_single_document E p = Inl e)) \<and>
            app_process_file E f (w, v, ok) = (?w0, v, ok, Some e)"
          using p Inl by (auto simp: app_process_file_def)
        then show ?thesis by blast
      qed
    next
      case r: (Inr r)
      show ?thesis
      proof (cases "success r")
        case False
        have "app_process_file E f (w, v, ok) =
               (emit (Status Error (''Error processing '' @ name f @ '': '' @ error_message r)) ?w0,
                v, False, None)"
          using p r False by (simp add: app_process_file_def)
        then show ?thesis by blast
      next
        case s: True
        show ?thesis
        proof (cases "loaded_document r")
          case None
          have "app_process_file E f (w, v, ok) =
                 (emit (Status Error (''Unexpected error processing '' @ name f)) ?w0,
                  v, False, None)"
            using p r s None by (simp add: app_process_file_def handle_file_exception_def)
          then show ?thesis by blast
        next
          case d: (Some d0)
          let ?d = "d0\<lparr>metadata := (metadata d0)(''source'' \<mapsto> name f,
                       ''upload_time'' \<mapsto> now_isoformat E (clock w))\<rparr>"
          let ?w2 = "modify (append_documents ?d) (?w0\<lparr>clock := Suc (clock w)\<rparr>)"
          obtain res v' where a: "add_documents E v [?d] = (res, v')"
            by (cases "add_documents E v [?d]")
          show ?thesis
          proof (cases res)
            case (Inl e)
            from handle_file_exception_cases [of f e ?w2 ok] show ?thesis
            proof (elim disjE exE conjE)
              fix m assume "handle_file_exception f e ?w2 ok = (emit (Status Error m) ?w2, False, None)"
              then have "app_process_file E f (w, v, ok) = (emit (Status Error m) ?w2, v', False, None)"
                using p r s d a Inl by (simp add: app_process_file_def Let_def)
              then show ?thesis by blast
            next
              assume ne: "\<not> is_exception e" and "handle_file_exception f e ?w2 ok = (?w2, ok, Some e)"
              then have "app_process_file E f (w, v, ok) = (?w2, v', ok, Some e)"
                using p r s d a Inl by (simp add: app_process_file_def Let_def)
              moreover have "\<exists>ds. fst (add_documents E v ds) = Inl e"
                using a Inl by (intro exI [of _ "[?d]"]) simp
              ultimately show ?thesis using ne by blast
            qed
          next
            case (Inr added)
            have "app_process_file E f (w, v, ok) =
                 (emit (Status Success (''Successfully processed '' @ name f)) ?w2,
                  v', ok, None)"
              using p r s d a Inr by (simp add: app_process_file_def Let_def)
            then show ?thesis by blast
          qed
        qed
      qed
    qed
  qed
qed


subsection \<open>When the loop ends, and what it shows\<close>

lemma process_files_escaped [simp]:
  "process_files E fs (w, v, ok, n, Some e) = (w, v, ok, n, Some e)"
  by (cases fs) simp_all

lemma app_process_files_escaped [simp]:
  "app_process_files E fs (w, v, ok, Some e) = (w, v, ok, Some e)"
  by (cases fs) simp_all

lemma process_file_trace:
  "\<exists>evs. trace (fst (process_file E f (w, v, ok, n))) = trace w @ evs \<and> Cleanup \<notin> set evs"
  using process_file_outcome [of E f w v ok n]
  by (elim disjE exE conjE) simp_all

lemma app_process_file_trace:
  "\<exists>evs. trace (fst (app_process_file E f (w, v, ok))) = trace w @ evs \<and> Cleanup \<notin> set evs"
  using app_process_file_outcome [of E f w v ok]
  by (elim disjE exE conjE) simp_all

lemma process_files_trace:
  "\<exists>evs. trace (fst (process_files E fs st)) = trace (fst st) @ evs \<and> Cleanup \<notin> set evs"
proof (induction fs arbitrary: st)
  case Nil
  show ?case by simp
next
  case (Cons f fs)
  obtain w v ok n esc where st: "st = (w, v, ok, n, esc)" by (cases st)
  show ?case
  proof (cases esc)
    case (Some e)
    then show ?thesis using st by simp
  next
    case None
    obtain evs1 where 1: "trace (fst (process_file E f (w, v, ok, n))) = trace w @ evs1"
      "Cleanup \<notin> set evs1"
      using process_file_trace [of E f w v ok n] by auto
    obtain evs2 where 2: "trace (fst (process_files E fs (process_file E f (w, v, ok, n))))
        = trace (fst (process_file E f (w, v, ok, n))) @ evs2" "Cleanup \<notin> set evs2"
      using Cons.IH by blast
    have "trace (fst (process_files E (f # fs) st)) = trace (fst st) @ (evs1 @ evs2)"
      using 1 2 st None by simp
    moreover have "Cleanup \<notin> set (evs1 @ evs2)" using 1 2 by simp
    ultimately show ?thesis by blast
  qed
qed

lemma app_process_files_trace:
  "\<exists>evs. trace (fst (app_process_files E fs st)) = trace (fst st) @ evs \<and> Cleanup \<notin> set evs"
proof (induction fs arbitrary: st)
  case Nil
  show ?case by simp
next
  case (Cons f fs)
  obtain w v ok esc where st: "st = (w, v, ok, esc)" by (cases st)
  show ?case
  proof (cases esc)
    case (Some e)
    then show ?thesis using st by simp
  next
    case None
    obtain evs1 where 1: "trace (fst (app_process_file E f (w, v, ok))) = trace w @ evs1"
      "Cleanup \<notin> set evs1"
      using app_process_file_trace [of E f w v ok] by auto
    obtain evs2 where 2: "trace (fst (app_process_files E fs (app_process_file E f (w, v, ok))))
        = trace (fst (app_process_file E f (w, v, ok))) @ evs2" "Cleanup \<notin> set evs2"
      using Cons.IH by blast
    have "trace (fst (app_process_files E (f # fs) st)) = trace (fst st) @ (evs1 @ evs2)"
      using 1 2 st None by simp
    moreover have "Cleanup \<notin> set (evs1 @ evs2)" using 1 2 by simp
    ultimately show ?thesis by blast
  qed
qed

lemma process_file_completes:
  assumes "raises_only_exceptions E"
  shows "\<exists>w' v' ok' n'. process_file E f (w, v, ok, n) = (w', v', ok', n', None)"
  using process_file_outcome [of E f w v ok n] assms
  unfolding raises_only_exceptions_def
  by (elim disjE exE conjE) blast+

lemma app_process_file_completes:
  assumes "raises_only_exceptions E"
  shows "\<exists>w' v' ok'. app_process_file E f (w, v, ok) = (w', v', ok', None)"
  using app_process_file_outcome [of E f w v ok] assms
  unfolding raises_only_exceptions_def
  by (elim disjE exE conjE) blast+

lemma process_files_complete:
  assumes "raises_only_exceptions E"
  shows "\<exists>w' v' ok' n'. process_files E fs (w, v, ok, n, None) = (w', v', ok', n', None)"
proof (induction fs arbitrary: w v ok n)
  case Nil
  show ?case by simp
next
  case (Cons f fs)
  obtain w1 v1 ok1 n1 where "process_file E f (w, v, ok, n) = (w1, v1, ok1, n1, None)"
    using process_file_completes [OF assms, of f w v ok n] by blast
  then show ?case using Cons.IH [of w1 v1 ok1 n1] by simp
qed

lemma app_process_files_complete:
  assumes "raises_only_exceptions E"
  shows "\<exists>w' v' ok'. app_process_files E fs (w, v, ok, None) = (w', v', ok', None)"
proof (induction fs arbitrary: w v ok)
  case Nil
  show ?case by simp
next
  case (Cons f fs)
  obtain w1 v1 ok1 where "app_process_file E f (w, v, ok) = (w1, v1, ok1, None)"
    using app_process_file_completes [OF assms, of f w v ok] by blast
  then show ?case using Cons.IH [of w1 v1 ok1] by simp
qed

text \<open>
  As long as nothing but an \<^verbatim>\<open>Exception\<close> is raised in the loop, every file ends in
  one of the handlers, and with a vector store the batch ends with \<^verbatim>\<open>cleanup()\<close>,
  once and last, however many files succeeded or failed.
\<close>

lemma sidebar_cleanup_last:
  assumes "vector_store w = Some v" and "raises_only_exceptions E"
  shows "\<exists>evs. emitted w (process_uploaded_files E fs w) = evs @ [Cleanup] \<and> Cleanup \<notin> set evs"
proof -
  obtain w1 v1 ok n where l: "process_files E fs (w, v, True, 0, None) = (w1, v1, ok, n, None)"
    using process_files_complete [OF assms(2), of fs w v True 0] by blast
  obtain evs where e: "trace w1 = trace w @ evs" "Cleanup \<notin> set evs"
    using process_files_trace [of E fs "(w, v, True, 0, None)"] l by auto
  obtain x where x: "trace (process_uploaded_files E fs w) = trace w @ (evs @ [x]) @ [Cleanup]"
    "x \<noteq> Cleanup"
    using assms(1) l e by (cases ok; cases "0 < n") (simp_all add: process_uploaded_files_def Let_def)
  have "emitted w (process_uploaded_files E fs w) = (evs @ [x]) @ [Cleanup]"
    using x(1) by (rule emitted_append)
  moreover have "Cleanup \<notin> set (evs @ [x])" using e x by simp
  ultimately show ?thesis by blast
qed

lemma app_cleanup_last:
  assumes "vector_store w = Some v" and "raises_only_exceptions E"
  shows "\<exists>evs. emitted w (app_process_uploaded_files E fs w) = evs @ [Cleanup] \<and> Cleanup \<notin> set evs"
proof (cases "documents_processed (state w)")
  case True
  then have "trace (app_process_uploaded_files E fs w) = trace w @ [] @ [Cleanup]"
    using assms(1) by (simp add: app_process_uploaded_files_def)
  then have "emitted w (app_process_uploaded_files E fs w) = [] @ [Cleanup]"
    by (rule emitted_append)
  then show ?thesis by simp
next
  case False
  obtain w1 v1 ok where l: "app_process_files E fs (w, v, True, None) = (w1, v1, ok, None)"
    using app_process_files_complete [OF assms(2), of fs w v True] by blast
  obtain evs where e: "trace w1 = trace w @ evs" "Cleanup \<notin> set evs"
    using app_process_files_trace [of E fs "(w, v, True, None)"] l by auto
  obtain x where x: "trace (app_process_uploaded_files E fs w) = trace w @ (evs @ [x]) @ [Cleanup]"
    "x \<noteq> Cleanup"
    using assms(1) l e False by (cases ok) (simp_all add: app_process_uploaded_files_def Let_def)
  have "emitted w (app_process_uploaded_files E fs w) = (evs @ [x]) @ [Cleanup]"
    using x(1) by (rule emitted_append)
  moreover have "Cleanup \<notin> set (evs @ [x])" using e x by simp
  ultimately show ?thesis by blast
qed

subsection \<open>A batch with one failed extraction\<close>

lemma extracts_not_fails: "extracts E f \<Longrightarrow> \<not> fails_extraction E f"
  by (auto simp: extracts_def fails_extraction_def split: sum.splits)

lemma process_file_fails:
  assumes "fails_extraction E f"
  shows "\<exists>m. process_file E f (w, v, ok, n) =
     (emit (Status Error m) (emit (Status Info (''Processing '' @ name f @ ''...'')) w), v, False, n, None)"
proof -
  from assms obtain p r where p: "process_uploaded_file E f = Inr p"
    and r: "load_single_document E p = Inr r" and s: "\<not> success r"
    by (auto simp: fails_extraction_def split: sum.splits)
  have "process_file E f (w, v, ok, n) =
     (emit (Status Error (''Error processing '' @ name f @ '': '' @ error_message r))
        (emit (Status Info (''Processing '' @ name f @ ''...'')) w), v, False, n, None)"
    by (simp add: process_file_def Let_def p r s)
  then show ?thesis by blast
qed

lemma process_file_extracts:
  assumes "extracts E f" "index_accepts E"
  shows "\<exists>d v'. process_file E f (w, v, ok, n) =
     (emit (Status Success (''Successfully processed '' @ name f))
        (modify (append_documents d)
           ((emit (Status Info (''Processing '' @ name f @ ''...'')) w)\<lparr>clock := Suc (clock w)\<rparr>)),
      v', ok, Suc n, None)"
proof -
  from assms(1) obtain p r d0 where p: "process_uploaded_file E f = Inr p"
    and r: "load_single_document E p = Inr r" and s: "success r" and d: "loaded_document r = Some d0"
    by (auto simp: extracts_def split: sum.splits)
  let ?d = "d0\<lparr>metadata := (metadata d0)(''source'' \<mapsto> name f,
      ''upload_time'' \<mapsto> now_isoformat E (clock w),
      ''id'' \<mapsto> ''doc_'' @ str_nat (length (documents (state w))))\<rparr>"
  obtain v' where a: "add_documents E v [?d] = (Inr True, v')"
    using assms(2) unfolding index_accepts_def by (metis prod.collapse)
  have "process_file E f (w, v, ok, n) =
     (emit (Status Success (''Successfully processed '' @ name f))
        (modify (append_documents ?d)
           ((emit (Status Info (''Processing '' @ name f @ ''...'')) w)\<lparr>clock := Suc (clock w)\<rparr>)),
      v', ok, Suc n, None)"
    using a by (simp add: process_file_def Let_def p r s d)
  then show ?thesis by blast
qed

lemma app_process_file_fails:
  assumes "fails_extraction E f"
  shows "\<exists>m. app_process_file E f (w, v, ok) =
     (emit (Status Error m) (emit (Status Info (''Processing '' @ name f @ ''...'')) w), v, False, None)"
proof -
  from assms obtain p r where p: "process_uploaded_file E f = Inr p"
    and r: "load_single_document E p = Inr r" and s: "\<not> success r"
    by (auto simp: fails_extraction_def split: sum.splits)
  have "app_process_file E f (w, v, ok) =
     (emit (Status Error (''Error processing '' @ name f @ '': '' @ error_message r))
        (emit (Status Info (''Processing '' @ name f @ ''...'')) w), v, False, None)"
    by (simp add: app_process_file_def Let_def p r s)
  then show ?thesis by blast
qed

lemma app_process_file_extracts:
  assumes "extracts E f" "index_accepts E"
  shows "\<exists>d v'. app_process_file E f (w, v, ok) =
     (emit (Status Success (''Successfully processed '' @ name f))
        (modify (append_documents d)
           ((emit (Status Info (''Processing '' @ name f @ ''...'')) w)\<lparr>clock := Suc (clock w)\<rparr>)),
      v', ok, None)"
proof -
  from assms(1) obtain p r d0 where p: "process_uploaded_file E f = Inr p"
    and r: "load_single_document E p = Inr r" and s: "success r" and d: "loaded_document r = Some d0"
    by (auto simp: extracts_def split: sum.splits)
  let ?d = "d0\<lparr>metadata := (metadata d0)(''source'' \<mapsto> name f,
      ''upload_time'' \<mapsto> now_isoformat E (clock w))\<rparr>"
  obtain v' where a: "add_documents E v [?d] = (Inr True, v')"
    using assms(2) unfolding index_accepts_def by (metis prod.collapse)
  have "app_process_file E f (w, v, ok) =
     (emit (Status Success (''Successfully processed '' @ name f))
        (modify (append_documents ?d)
           ((emit (Status Info (''Processing '' @ name f @ ''...'')) w)\<lparr>clock := Suc (clock w)\<rparr>)),
      v', ok, None)"
    using a by (simp add: app_process_file_def Let_def p r s d)
  then show ?thesis by blast
qed

lemma process_files_partial:
  assumes "index_accepts E" and "\<forall>f\<in>set fs. fails_extraction E f \<or> extracts E f"
  shows "\<exists>w' v' ok' evs.
     process_files E fs (w, v, ok, n, None) = (w', v', ok', n + length (filter (extracts E) fs), None) \<and>
     trace w' = trace w @ evs \<and>
     length (filter is_file_error evs) = length (filter (fails_extraction E) fs) \<and>
     length (filter is_file_success evs) = length (filter (extracts E) fs) \<and>
     length (documents (state w')) = length (documents (state w)) + length (filter (extracts E) fs)"
  using assms(2)
proof (induction fs arbitrary: w v ok n)
  case Nil
  show ?case by simp
next
  case (Cons f fs)
  have rest: "\<forall>f\<in>set fs. fails_extraction E f \<or> extracts E f" using Cons.prems by simp
  show ?case
  proof (cases "extracts E f")
    case True
    then have nf: "\<not> fails_extraction E f" by (rule extracts_not_fails)
    obtain d v1 where step: "process_file E f (w, v, ok, n) =
       (emit (Status Success (''Successfully processed '' @ name f))
          (modify (append_documents d)
             ((emit (Status Info (''Processing '' @ name f @ ''...'')) w)\<lparr>clock := Suc (clock w)\<rparr>)),
        v1, ok, Suc n, None)"
      using process_file_extracts [OF True assms(1)] by blast
    let ?w1 = "emit (Status Success (''Successfully processed '' @ name f))
          (modify (append_documents d)
             ((emit (Status Info (''Processing '' @ name f @ ''...'')) w)\<lparr>clock := Suc (clock w)\<rparr>))"
    obtain w' v' ok' evs where ih:
      "process_files E fs (?w1, v1, ok, Suc n, None) = (w', v', ok', Suc n + length (filter (extracts E) fs), None)"
      "trace w' = trace ?w1 @ evs"
      "length (filter is_file_error evs) = length (filter (fails_extraction E) fs)"
      "length (filter is_file_success evs) = length (filter (extracts E) fs)"
      "length (documents (state w')) = length (documents (state ?w1)) + length (filter (extracts E) fs)"
      using Cons.IH [OF rest, of ?w1 v1 ok "Suc n"] by blast
    let ?evs = "[Status Info (''Processing '' @ name f @ ''...''),
                 Status Success (''Successfully processed '' @ name f)] @ evs"
    have "process_files E (f # fs) (w, v, ok, n, None)
            = (w', v', ok', n + length (filter (extracts E) (f # fs)), None)"
      using step ih(1) True by simp
    moreover have "trace w' = trace w @ ?evs" using ih(2) by simp
    moreover have "length (filter is_file_error ?evs) = length (filter (fails_extraction E) (f # fs))"
      using ih(3) nf by simp
    moreover have "length (filter is_file_success ?evs) = length (filter (extracts E) (f # fs))"
      using ih(4) True by simp
    moreover have "length (documents (state w'))
         = length (documents (state w)) + length (filter (extracts E) (f # fs))"
      using ih(5) True by (simp add: append_documents_def)
    ultimately show ?thesis by blast
  next
    case False
    then have fl: "fails_extraction E f" using Cons.prems by simp
    obtain m where step: "process_file E f (w, v, ok, n) =
       (emit (Status Error m) (emit (Status Info (''Processing '' @ name f @ ''...'')) w), v, False, n, None)"
      using process_file_fails [OF fl] by blast
    let ?w1 = "emit (Status Error m) (emit (Status Info (''Processing '' @ name f @ ''...'')) w)"
    obtain w' v' ok' evs where ih:
      "process_files E fs (?w1, v, False, n, None) = (w', v', ok', n + length (filter (extracts E) fs), None)"
      "trace w' = trace ?w1 @ evs"
      "length (filter is_file_error evs) = length (filter (fails_extraction E) fs)"
      "length (filter is_file_success evs) = length (filter (extracts E) fs)"
      "length (documents (state w')) = length (documents (state ?w1)) + length (filter (extracts E) fs)"
      using Cons.IH [OF rest, of ?w1 v False n] by blast
    let ?evs = "[Status Info (''Processing '' @ name f @ ''...''), Status Error m] @ evs"
    have "process_files E (f # fs) (w, v, ok, n, None)
            = (w', v', ok', n + length (filter (extracts E) (f # fs)), None)"
      using step ih(1) False by simp
    moreover have "trace w' = trace w @ ?evs" using ih(2) by simp
    moreover have "length (filter is_file_error ?evs) = length (filter (fails_extraction E) (f # fs))"
      using ih(3) fl by simp
    moreover have "length (filter is_file_success ?evs) = length (filter (extracts E) (f # fs))"
      using ih(4) False by simp
    moreover have "length (documents (state w'))
         = length (documents (state w)) + length (filter (extracts E) (f # fs))"
      using ih(5) False by simp
    ultimately show ?thesis by blast
  qed
qed

lemma app_process_files_partial:
  assumes "index_accepts E" and "\<forall>f\<in>set fs. fails_extraction E f \<or> extracts E f"
  shows "\<exists>w' v' ok' evs.
     app_process_files E fs (w, v, ok, None) = (w', v', ok', None) \<and>
     trace w' = trace w @ evs \<and>
     length (filter is_file_error evs) = length (filter (fails_extraction E) fs) \<and>
     length (filter is_file_success evs) = length (filter (extracts E) fs) \<and>
     length (documents (state w')) = length (documents (state w)) + length (filter (extracts E) fs)"
  using assms(2)
proof (induction fs arbitrary: w v ok)
  case Nil
  show ?case by simp
next
  case (Cons f fs)
  have rest: "\<forall>f\<in>set fs. fails_extraction E f \<or> extracts E f" using Cons.prems by simp
  show ?case
  proof (cases "extracts E f")
    case True
    then have nf: "\<not> fails_extraction E f" by (rule extracts_not_fails)
    obtain d v1 where step: "app_process_file E f (w, v, ok) =
       (emit (Status Success (''Successfully processed '' @ name f))
          (modify (append_documents d)
             ((emit (Status Info (''Processing '' @ name f @ ''...'')) w)\<lparr>clock := Suc (clock w)\<rparr>)),
        v1, ok, None)"
      using app_process_file_extracts [OF True assms(1)] by blast
    let ?w1 = "emit (Status Success (''Successfully processed '' @ name f))
          (modify (append_documents d)
             ((emit (Status Info (''Processing '' @ name f @ ''...'')) w)\<lparr>clock := Suc (clock w)\<rparr>))"
    obtain w' v' ok' evs where ih:
      "app_process_files E fs (?w1, v1, ok, None) = (w', v', ok', None)"
      "trace w' = trace ?w1 @ evs"
      "length (filter is_file_error evs) = length (filter (fails_extraction E) fs)"
      "length (filter is_file_success evs) = length (filter (extracts E) fs)"
      "length (documents (state w')) = length (documents (state ?w1)) + length (filter (extracts E) fs)"
      using Cons.IH [OF rest, of ?w1 v1 ok] by blast
    let ?evs = "[Status Info (''Processing '' @ name f @ ''...''),
                 Status Success (''Successfully processed '' @ name f)] @ evs"
    have "app_process_files E (f # fs) (w, v, ok, None) = (w', v', ok', None)"
      using step ih(1) True by simp
    moreover have "trace w' = trace w @ ?evs" using ih(2) by simp
    moreover have "length (filter is_file_error ?evs) = length (filter (fails_extraction E) (f # fs))"
      using ih(3) nf by simp
    moreover have "length (filter is_file_success ?evs) = length (filter (extracts E) (f # fs))"
      using ih(4) True by simp
    moreover have "length (documents (state w'))
         = length (documents (state w)) + length (filter (extracts E) (f # fs))"
      using ih(5) True by (simp add: append_documents_def)
    ultimately show ?thesis by blast
  next
    case False
    then have fl: "fails_extraction E f" using Cons.prems by simp
    obtain m where step: "app_process_file E f (w, v, ok) =
       (emit (Status Error m) (emit (Status Info (''Processing '' @ name f @ ''...'')) w), v, False, None)"
      using app_process_file_fails [OF fl] by blast
    let ?w1 = "emit (Status Error m) (emit (Status Info (''Processing '' @ name f @ ''...'')) w)"
    obtain w' v' ok' evs where ih:
      "app_process_files E fs (?w1, v, False, None) = (w', v', ok', None)"
      "trace w' = trace ?w1 @ evs"
      "length (filter is_file_error evs) = length (filter (fails_extraction E) fs)"
      "length (filter is_file_success evs) = length (filter (extracts E) fs)"
      "length (documents (state w')) = length (documents (state ?w1)) + length (filter (extracts E) fs)"
      using Cons.IH [OF rest, of ?w1 v False] by blast
    let ?evs = "[Status Info (''Processing '' @ name f @ ''...''), Status Error m] @ evs"
    have "app_process_files E (f # fs) (w, v, ok, None) = (w', v', ok', None)"
      using step ih(1) False by simp
    moreover have "trace w' = trace w @ ?evs" using ih(2) by simp
    moreover have "length (filter is_file_error ?evs) = length (filter (fails_extraction E) (f # fs))"
      using ih(3) fl by simp
    moreover have "length (filter is_file_success ?evs) = length (filter (extracts E) (f # fs))"
      using ih(4) False by simp
    moreover have "length (documents (state w'))
         = length (documents (state w)) + length (filter (extracts E) (f # fs))"
      using ih(5) False by simp
    ultimately show ?thesis by blast
  qed
qed


lemma count_complement:
  assumes "\<forall>f\<in>set fs. P f \<or> Q f" and "\<And>f. Q f \<Longrightarrow> \<not> P f"
  shows "length (filter Q fs) = length fs - length (filter P fs)"
proof -
  have "filter Q fs = filter (\<lambda>f. \<not> P f) fs"
    using assms by (intro filter_cong) auto
  then show ?thesis
    using sum_length_filter_compl [of P fs] by simp
qed

lemma sidebar_partial_batch:
  assumes vs: "vector_store w = Some v" and acc: "index_accepts E"
    and every: "\<forall>f\<in>set files. fails_extraction E f \<or> extracts E f"
  shows "length (documents (state (process_uploaded_files E files w)))
           = length (documents (state w)) + length (filter (extracts E) files) \<and>
         length (filter is_file_error (emitted w (process_uploaded_files E files w)))
           = length (filter (fails_extraction E) files) \<and>
         length (filter is_file_success (emitted w (process_uploaded_files E files w)))
           = length (filter (extracts E) files)"
proof -
  obtain w' v' ok' evs where l:
    "process_files E files (w, v, True, 0, None) = (w', v', ok', 0 + length (filter (extracts E) files), None)"
    "trace w' = trace w @ evs"
    "length (filter is_file_error evs) = length (filter (fails_extraction E) files)"
    "length (filter is_file_success evs) = length (filter (extracts E) files)"
    "length (documents (state w')) = length (documents (state w)) + length (filter (extracts E) files)"
    using process_files_partial [OF acc every, of w v True 0] by blast
  let ?n = "length (filter (extracts E) files)"
  obtain lv m where fin:
    "trace (process_uploaded_files E files w) = trace w @ (evs @ [Display lv m, Cleanup])"
    "documents (state (process_uploaded_files E files w)) = documents (state w')"
    using vs l(1,2)
    by (cases ok'; cases "0 < ?n")
       (simp_all add: process_uploaded_files_def Let_def update_vector_store_initialized_def)
  have em: "emitted w (process_uploaded_files E files w) = evs @ [Display lv m, Cleanup]"
    using fin(1) by (rule emitted_append)
  show ?thesis
    using l(3,4,5) fin(2) em by simp
qed

lemma app_partial_batch:
  assumes vs: "vector_store w = Some v" and acc: "index_accepts E"
    and every: "\<forall>f\<in>set files. fails_extraction E f \<or> extracts E f"
    and unprocessed: "\<not> documents_processed (state w)"
  shows "length (documents (state (app_process_uploaded_files E files w)))
           = length (documents (state w)) + length (filter (extracts E) files) \<and>
         length (filter is_file_error (emitted w (app_process_uploaded_files E files w)))
           = length (filter (fails_extraction E) files) \<and>
         length (filter is_file_success (emitted w (app_process_uploaded_files E files w)))
           = length (filter (extracts E) files)"
proof -
  obtain w' v' ok' evs where l:
    "app_process_files E files (w, v, True, None) = (w', v', ok', None)"
    "trace w' = trace w @ evs"
    "length (filter is_file_error evs) = length (filter (fails_extraction E) files)"
    "length (filter is_file_success evs) = length (filter (extracts E) files)"
    "length (documents (state w')) = length (documents (state w)) + length (filter (extracts E) files)"
    using app_process_files_partial [OF acc every, of w v True] by blast
  obtain lv m where fin:
    "trace (app_process_uploaded_files E files w) = trace w @ (evs @ [Display lv m, Cleanup])"
    "documents (state (app_process_uploaded_files E files w)) = documents (state w')"
    using vs unprocessed l(1,2)
    by (cases ok')
       (simp_all add: app_process_uploaded_files_def Let_def update_vector_store_initialized_def)
  have em: "emitted w (app_process_uploaded_files E files w) = evs @ [Display lv m, Cleanup]"
    using fin(1) by (rule emitted_append)
  show ?thesis
    using l(3,4,5) fin(2) em by simp
qed

text \<open>
  C2. In a batch where the vector store is available and takes every insertion, one file
  fails extraction (the loader returns \<^verbatim>\<open>success=False\<close>) and every other file is
  extracted, the loop goes on past the failed file: one per-file error is reported, every
  other file is reported as processed, and the documents collection grows by the number
  of files minus one. In \<^verbatim>\<open>app.py\<close> this is the run in which the batch is processed,
  that is while \<^verbatim>\<open>documents_processed\<close> is not yet set.
\<close>

theorem partial_batch_failure:
  assumes "vector_store w = Some v" and "index_accepts E"
    and "\<forall>f\<in>set files. fails_extraction E f \<or> extracts E f"
    and "length (filter (fails_extraction E) files) = 1"
  shows "length (documents (state (process_uploaded_files E files w)))
           = length (documents (state w)) + (length files - 1) \<and>
         length (filter is_file_error (emitted w (process_uploaded_files E files w))) = 1 \<and>
         length (filter is_file_success (emitted w (process_uploaded_files E files w)))
           = length files - 1 \<and>
         (\<not> documents_processed (state w) \<longrightarrow>
            length (documents (state (app_process_uploaded_files E files w)))
              = length (documents (state w)) + (length files - 1) \<and>
            length (filter is_file_error (emitted w (app_process_uploaded_files E files w))) = 1 \<and>
            length (filter is_file_success (emitted w (app_process_uploaded_files E files w)))
              = length files - 1)"
proof -
  have n: "length (filter (extracts E) files) = length files - 1"
    using count_complement [of files "fails_extraction E" "extracts E"] assms(3,4)
      extracts_not_fails [of E]
    by auto
  show ?thesis
    using sidebar_partial_batch [OF assms(1,2,3)] app_partial_batch [OF assms(1,2,3)] n assms(4)
    by simp
qed

lemma demo_files_mixed:
  "index_accepts demo_env"
  "\<forall>f\<in>set demo_files. fails_extraction demo_env f \<or> extracts demo_env f"
  "length (filter (fails_extraction demo_env) demo_files) = 1"
  by (simp_all add: index_accepts_def demo_env_def demo_files_def fails_extraction_def extracts_def)

theorem partial_batch_failure_witness:
  "vector_store demo_world = Some [] \<and>
   length (filter (fails_extraction demo_env) demo_files) = 1 \<and>
   length (filter (extracts demo_env) demo_files) = 2 \<and>
   length (documents (state (process_uploaded_files demo_env demo_files demo_world))) = 2 \<and>
   length (filter is_file_error (emitted demo_world
      (process_uploaded_files demo_env demo_files demo_world))) = 1 \<and>
   length (documents (state (app_process_uploaded_files demo_env demo_files demo_world))) = 2 \<and>
   length (filter is_file_error (emitted demo_world
      (app_process_uploaded_files demo_env demo_files demo_world))) = 1"
proof -
  have vs: "vector_store demo_world = Some []" by (simp add: demo_world_def)
  have d: "documents (state demo_world) = []" "\<not> documents_processed (state demo_world)"
    by (simp_all add: demo_world_def initial_state_def)
  have n: "length demo_files = 3" by (simp add: demo_files_def)
  have e: "length (filter (extracts demo_env) demo_files) = 2"
    by (simp add: demo_env_def demo_files_def extracts_def)
  show ?thesis
    using partial_batch_failure [OF vs demo_files_mixed] vs demo_files_mixed(3) d n e by simp
qed

subsection \<open>Leaving the batch\<close>

text \<open>
  Without a vector store nothing is ingested: the function reports it and returns before
  it creates a file handler or touches a file.
\<close>

lemma no_vector_store_no_batch:
  assumes "vector_store w = None"
  shows "state (process_uploaded_files E files w) = state w \<and>
         emitted w (process_uploaded_files E files w)
           = [Display Error ''Vector store not initialized. Cannot process documents.''] \<and>
         state (app_process_uploaded_files E files w) = state w \<and>
         emitted w (app_process_uploaded_files E files w)
           = [Display Error ''Vector store not initialized. Cannot process documents.'']"
  using assms by (simp add: process_uploaded_files_def app_process_uploaded_files_def)

text \<open>
  C8 asks for \<^verbatim>\<open>cleanup()\<close> on every exit path. It is the last statement of the
  function and not in a \<^verbatim>\<open>finally\<close>: when the loader is interrupted on the second
  file of a batch, after the first file has been stored in temporary storage and
  registered, the exception leaves the loop and the function, and \<^verbatim>\<open>cleanup()\<close> is
  not called; in both versions.
\<close>

theorem batch_left_without_cleanup:
  "emitted demo_world (process_uploaded_files interrupted_env [first_file, other_file] demo_world)
     = [Status Info ''Processing a.txt...'', Status Success ''Successfully processed a.txt'',
        Status Info ''Processing c.txt...'', Raised (BaseException ''KeyboardInterrupt'')] \<and>
   emitted demo_world (app_process_uploaded_files interrupted_env [first_file, other_file] demo_world)
     = [Status Info ''Processing a.txt...'', Status Success ''Successfully processed a.txt'',
        Status Info ''Processing c.txt...'', Raised (BaseException ''KeyboardInterrupt'')]"
  by (simp add: process_uploaded_files_def app_process_uploaded_files_def process_file_def
      app_process_file_def handle_file_exception_def interrupted_env_def demo_env_def
      first_file_def other_file_def demo_world_def initial_state_def append_documents_def
      emit_def modify_def emitted_def Let_def)

subsection \<open>Document ids\<close>

lemma nat_of_str_snoc: "nat_of_str (s @ [c]) = 10 * nat_of_str s + ((of_char c :: nat) - 48)"
  by (simp add: nat_of_str_def)

lemma nat_of_digit: "d < 10 \<Longrightarrow> (of_char (digit_char d) :: nat) - 48 = d"
  by (simp add: digit_char_def)

lemma str_nat_inverse: "nat_of_str (str_nat n) = n"
proof (induction n rule: str_nat.induct)
  case (1 n)
  show ?case
  proof (cases "n < 10")
    case True
    then have "str_nat n = [] @ [digit_char n]" by (simp add: str_nat.simps)
    then show ?thesis
      using True by (simp only: nat_of_str_snoc nat_of_digit) (simp add: nat_of_str_def)
  next
    case False
    then have s: "str_nat n = str_nat (n div 10) @ [digit_char (n mod 10)]"
      by (subst str_nat.simps) simp
    have "nat_of_str (str_nat n) = 10 * nat_of_str (str_nat (n div 10)) + n mod 10"
      unfolding s nat_of_str_snoc by (simp add: nat_of_digit)
    then show ?thesis using 1 False by simp
  qed
qed

lemma str_nat_inj: "inj str_nat"
  by (rule inj_on_inverseI [of _ nat_of_str]) (rule str_nat_inverse)

lemma str_nat_small:
  "str_nat 0 = ''0''" "str_nat (Suc 0) = ''1''" "str_nat 1 = ''1''" "str_nat 2 = ''2''"
  by code_simp+

lemma ids_by_position_distinct:
  assumes "ids_by_position docs"
  shows "distinct (document_ids docs)"
proof -
  have "inj (\<lambda>i. Some (''doc_'' @ str_nat i))"
    using str_nat_inj by (auto simp: inj_def)
  then have "inj_on (\<lambda>i. Some (''doc_'' @ str_nat i)) (set [0..<length docs])"
    by (rule inj_on_subset) simp
  then have "distinct (map (\<lambda>i. Some (''doc_'' @ str_nat i)) [0..<length docs])"
    by (simp add: distinct_map)
  then show ?thesis using assms by (simp add: ids_by_position_def)
qed

lemma ids_by_position_snoc:
  assumes "ids_by_position docs"
    and "metadata d ''id'' = Some (''doc_'' @ str_nat (length docs))"
  shows "ids_by_position (docs @ [d])"
  using assms by (simp add: ids_by_position_def document_ids_def)

lemma process_file_registry:
  "\<exists>new. state (fst (process_file E f (w, v, ok, n)))
           = (state w)\<lparr>documents := documents (state w) @ new\<rparr> \<and>
         (ids_by_position (documents (state w)) \<longrightarrow> ids_by_position (documents (state w) @ new))"
proof -
  have none: "state w' = state w \<Longrightarrow> ?thesis" if "w' = fst (process_file E f (w, v, ok, n))" for w'
  proof -
    assume "state w' = state w"
    then have "state (fst (process_file E f (w, v, ok, n)))
                 = (state w)\<lparr>documents := documents (state w) @ []\<rparr>"
      using that by simp
    then show ?thesis by (intro exI [of _ "[]"]) simp
  qed
  have one: "state w' = append_documents d (state w) \<Longrightarrow>
             metadata d ''id'' = Some (''doc_'' @ str_nat (length (documents (state w)))) \<Longrightarrow> ?thesis"
    if "w' = fst (process_file E f (w, v, ok, n))" for w' d
  proof -
    assume "state w' = append_documents d (state w)"
      and i: "metadata d ''id'' = Some (''doc_'' @ str_nat (length (documents (state w))))"
    then have "state (fst (process_file E f (w, v, ok, n)))
                 = (state w)\<lparr>documents := documents (state w) @ [d]\<rparr>"
      using that by (simp add: append_documents_def)
    then show ?thesis using i by (intro exI [of _ "[d]"]) (simp add: ids_by_position_snoc)
  qed
  from process_file_outcome [of E f w v ok n] show ?thesis
  proof (elim disjE exE conjE)
    fix m
    assume "process_file E f (w, v, ok, n) =
       (emit (Status Error m) (emit (Status Info (''Processing '' @ name f @ ''...'')) w),
        v, False, n, None)"
    then show ?thesis by (intro none [OF refl]) simp
  next
    fix m d v'
    assume "metadata d ''id'' = Some (''doc_'' @ str_nat (length (documents (state w))))"
      and "process_file E f (w, v, ok, n) =
         (emit (Status Error m)
            (modify (append_documents d)
               ((emit (Status Info (''Processing '' @ name f @ ''...'')) w)\<lparr>clock := Suc (clock w)\<rparr>)),
          v', False, n, None)"
    then show ?thesis by (intro one [OF refl, of d]) simp_all
  next
    fix d v'
    assume "metadata d ''id'' = Some (''doc_'' @ str_nat (length (documents (state w))))"
      and "process_file E f (w, v, ok, n) =
         (emit (Status Success (''Successfully processed '' @ name f))
            (modify (append_documents d)
               ((emit (Status Info (''Processing '' @ name f @ ''...'')) w)\<lparr>clock := Suc (clock w)\<rparr>)),
          v', ok, Suc n, None)"
    then show ?thesis by (intro one [OF refl, of d]) simp_all
  next
    fix e
    assume "process_file E f (w, v, ok, n) =
         (emit (Status Info (''Processing '' @ name f @ ''...'')) w, v, ok, n, Some e)"
    then show ?thesis by (intro none [OF refl]) simp
  next
    fix e p
    assume "process_file E f (w, v, ok, n) =
         (emit (Status Info (''Processing '' @ name f @ ''...'')) w, v, ok, n, Some e)"
    then show ?thesis by (intro none [OF refl]) simp
  next
    fix e d v'
    assume "metadata d ''id'' = Some (''doc_'' @ str_nat (length (documents (state w))))"
      and "process_file E f (w, v, ok, n) =
         (modify (append_documents d)
            ((emit (Status Info (''Processing '' @ name f @ ''...'')) w)\<lparr>clock := Suc (clock w)\<rparr>),
          v', ok, n, Some e)"
    then show ?thesis by (intro one [OF refl, of d]) simp_all
  qed
qed

lemma process_files_registry:
  "\<exists>new. state (fst (process_files E fs st))
           = (state (fst st))\<lparr>documents := documents (state (fst st)) @ new\<rparr> \<and>
         (ids_by_position (documents (state (fst st))) \<longrightarrow>
            ids_by_position (documents (state (fst st)) @ new))"
proof (induction fs arbitrary: st)
  case Nil
  have "state (fst st) = (state (fst st))\<lparr>documents := documents (state (fst st)) @ []\<rparr>" by simp
  then show ?case by (intro exI [of _ "[]"]) simp
next
  case (Cons f fs)
  obtain w v ok n esc where st: "st = (w, v, ok, n, esc)" by (cases st)
  show ?case
  proof (cases esc)
    case (Some e)
    have "state (fst st) = (state (fst st))\<lparr>documents := documents (state (fst st)) @ []\<rparr>" by simp
    then show ?thesis using st Some by (intro exI [of _ "[]"]) simp
  next
    case None
    let ?st1 = "process_file E f (w, v, ok, n)"
    obtain new1 where 1: "state (fst ?st1) = (state w)\<lparr>documents := documents (state w) @ new1\<rparr>"
      "ids_by_position (documents (state w)) \<longrightarrow> ids_by_position (documents (state w) @ new1)"
      using process_file_registry [of E f w v ok n] by auto
    obtain new2 where 2: "state (fst (process_files E fs ?st1))
             = (state (fst ?st1))\<lparr>documents := documents (state (fst ?st1)) @ new2\<rparr>"
      "ids_by_position (documents (state (fst ?st1))) \<longrightarrow>
              ids_by_position (documents (state (fst ?st1)) @ new2)"
      using Cons.IH [of ?st1] by blast
    have "state (fst (process_files E (f # fs) st))
            = (state (fst st))\<lparr>documents := documents (state (fst st)) @ (new1 @ new2)\<rparr>"
      using 1(1) 2(1) st None by simp
    moreover have "ids_by_position (documents (state (fst st))) \<longrightarrow>
              ids_by_position (documents (state (fst st)) @ (new1 @ new2))"
      using 1 2(2) st by simp
    ultimately show ?thesis by blast
  qed
qed

lemma process_uploaded_files_registry:
  "\<exists>new. documents (state (process_uploaded_files E fs w)) = documents (state w) @ new \<and>
         (ids_by_position (documents (state w)) \<longrightarrow> ids_by_position (documents (state w) @ new))"
proof (cases "vector_store w")
  case None
  then have "documents (state (process_uploaded_files E fs w)) = documents (state w) @ []"
    by (simp add: process_uploaded_files_def)
  then show ?thesis by (intro exI [of _ "[]"]) simp
next
  case (Some v)
  obtain w1 v1 ok n esc where l: "process_files E fs (w, v, True, 0, None) = (w1, v1, ok, n, esc)"
    by (cases "process_files E fs (w, v, True, 0, None)")
  obtain new where r: "state w1 = (state w)\<lparr>documents := documents (state w) @ new\<rparr>"
    "ids_by_position (documents (state w)) \<longrightarrow> ids_by_position (documents (state w) @ new)"
    using process_files_registry [of E fs "(w, v, True, 0, None)"] l by auto
  have "documents (state (process_uploaded_files E fs w)) = documents (state w1)"
    using Some l
    by (cases esc; cases ok; cases "0 < n")
       (simp_all add: process_uploaded_files_def Let_def update_vector_store_initialized_def)
  then have "documents (state (process_uploaded_files E fs w)) = documents (state w) @ new"
    using r(1) by simp
  with r(2) show ?thesis by blast
qed

text \<open>
  C9, as the code has it. The id written by \<^verbatim>\<open>process_uploaded_files\<close> of the
  sidebar is \<^verbatim>\<open>doc_\<close> followed by the length of the registry at that moment. In a
  registry whose ids follow the positions, as the empty one does, a batch leaves the
  documents already registered and their ids as they are, and afterwards the ids still
  follow the positions and are pairwise distinct.
\<close>

theorem ids_follow_positions:
  assumes "ids_by_position (documents (state w))"
  shows "take (length (documents (state w))) (documents (state (process_uploaded_files E files w)))
           = documents (state w) \<and>
         ids_by_position (documents (state (process_uploaded_files E files w))) \<and>
         distinct (document_ids (documents (state (process_uploaded_files E files w))))"
proof -
  obtain new where n: "documents (state (process_uploaded_files E files w)) = documents (state w) @ new"
    "ids_by_position (documents (state w) @ new)"
    using process_uploaded_files_registry [of E files w] assms by blast
  show ?thesis
    using n ids_by_position_distinct [OF n(2)] by simp
qed

theorem ids_follow_positions_witness:
  "ids_by_position (documents (state demo_world)) \<and>
   ids_by_position (documents (state (process_uploaded_files demo_env demo_files demo_world))) \<and>
   distinct (document_ids (documents (state (process_uploaded_files demo_env demo_files demo_world))))"
proof -
  have h: "ids_by_position (documents (state demo_world))"
    by (simp add: demo_world_def initial_state_def ids_by_position_def document_ids_def)
  show ?thesis
    using h ids_follow_positions [OF h, of demo_env demo_files] by simp
qed

text \<open>
  C9 as stated does not hold: the id is the position, and it comes back within a session.
  The document registered first gets \<^verbatim>\<open>doc_0\<close>; after clearing, another document
  gets \<^verbatim>\<open>doc_0\<close> again.
\<close>

theorem id_reused_after_clear:
  "document_ids (documents (state (process_uploaded_files demo_env [first_file] demo_world)))
     = [Some ''doc_0''] \<and>
   map page_content (documents (state (process_uploaded_files demo_env [first_file] demo_world)))
     = [''/tmp/a.txt''] \<and>
   document_ids (documents (state (process_uploaded_files demo_env [other_file]
       (clear_documents demo_env (process_uploaded_files demo_env [first_file] demo_world)))))
     = [Some ''doc_0''] \<and>
   map page_content (documents (state (process_uploaded_files demo_env [other_file]
       (clear_documents demo_env (process_uploaded_files demo_env [first_file] demo_world)))))
     = [''/tmp/c.txt'']"
  by (simp add: process_uploaded_files_def process_file_def clear_documents_def demo_env_def
      first_file_def other_file_def handle_file_exception_def
      demo_world_def initial_state_def document_ids_def append_documents_def emit_def modify_def
      update_vector_store_initialized_def str_nat_small Let_def)

subsection \<open>A failed insertion into the index\<close>

lemma process_files_append:
  "process_files E (xs @ ys) st = process_files E ys (process_files E xs st)"
proof (induction xs arbitrary: st)
  case Nil
  show ?case by simp
next
  case (Cons x xs)
  obtain w v ok n esc where st: "st = (w, v, ok, n, esc)" by (cases st)
  show ?case
    using Cons.IH st by (cases esc) simp_all
qed

lemma process_file_not_ok:
  "\<exists>w' v' n' esc'. process_file E f (w, v, False, n) = (w', v', False, n', esc')"
  using process_file_outcome [of E f w v False n]
  by (elim disjE exE conjE) simp_all

lemma process_files_not_ok:
  "\<exists>w' v' n' esc'. process_files E fs (w, v, False, n, esc) = (w', v', False, n', esc')"
proof (induction fs arbitrary: w v n esc)
  case Nil
  show ?case by simp
next
  case (Cons f fs)
  show ?case
  proof (cases esc)
    case (Some e)
    then show ?thesis by simp
  next
    case None
    obtain w1 v1 n1 esc1 where "process_file E f (w, v, False, n) = (w1, v1, False, n1, esc1)"
      using process_file_not_ok [of E f w v n] by blast
    then show ?thesis using Cons.IH [of w1 v1 n1 esc1] None by simp
  qed
qed

text \<open>
  The iteration for a file that is extracted and whose insertion does not succeed: the
  document is registered, and either the failure is caught and reported, or the exception
  leaves the loop.
\<close>

lemma process_file_insertion_fails:
  assumes p: "process_uploaded_file E f = Inr p" and r: "load_single_document E p = Inr r"
    and s: "success r" and d: "loaded_document r = Some d"
    and reg: "registered = d\<lparr>metadata := (metadata d)(''source'' \<mapsto> name f,
                 ''upload_time'' \<mapsto> now_isoformat E (clock w),
                 ''id'' \<mapsto> ''doc_'' @ str_nat (length (documents (state w))))\<rparr>"
    and fail: "fst (add_documents E v [registered]) \<noteq> Inr True"
  shows "\<exists>w' ok' esc. process_file E f (w, v, ok, n)
                   = (w', snd (add_documents E v [registered]), ok', n, esc) \<and>
                 state w' = append_documents registered (state w) \<and>
                 ((esc = None \<and> ok' = False \<and>
                   (\<exists>m. trace w' = trace w @ [Status Info (''Processing '' @ name f @ ''...''),
                                                Status Error m])) \<or>
                  (\<exists>e. esc = Some e \<and> \<not> is_exception e \<and>
                       trace w' = trace w @ [Status Info (''Processing '' @ name f @ ''...'')]))"
proof -
  obtain res v' where a: "add_documents E v [registered] = (res, v')"
    by (cases "add_documents E v [registered]")
  let ?w2 = "modify (append_documents registered)
               ((emit (Status Info (''Processing '' @ name f @ ''...'')) w)\<lparr>clock := Suc (clock w)\<rparr>)"
  show ?thesis
  proof (cases res)
    case (Inl e)
    from handle_file_exception_cases [of f e ?w2 ok] show ?thesis
    proof (elim disjE exE conjE)
      fix m assume "handle_file_exception f e ?w2 ok = (emit (Status Error m) ?w2, False, None)"
      then have "process_file E f (w, v, ok, n) = (emit (Status Error m) ?w2, v', False, n, None)"
        using p r s d a Inl unfolding reg by (simp add: process_file_def Let_def)
      then have "process_file E f (w, v, ok, n)
                   = (emit (Status Error m) ?w2, snd (add_documents E v [registered]), False, n, None) \<and>
               state (emit (Status Error m) ?w2) = append_documents registered (state w) \<and>
               trace (emit (Status Error m) ?w2)
                 = trace w @ [Status Info (''Processing '' @ name f @ ''...''), Status Error m]"
        using a by simp
      then show ?thesis by blast
    next
      assume ne: "\<not> is_exception e" and "handle_file_exception f e ?w2 ok = (?w2, ok, Some e)"
      then have "process_file E f (w, v, ok, n) = (?w2, v', ok, n, Some e)"
        using p r s d a Inl unfolding reg by (simp add: process_file_def Let_def)
      then have "process_file E f (w, v, ok, n)
                   = (?w2, snd (add_documents E v [registered]), ok, n, Some e) \<and>
               state ?w2 = append_documents registered (state w) \<and>
               trace ?w2 = trace w @ [Status Info (''Processing '' @ name f @ ''...'')]"
        using a by simp
      with ne show ?thesis by blast
    qed
  next
    case (Inr added)
    then have na: "\<not> added" using fail a by simp
    let ?m = "''Error adding '' @ name f @ '' to vector store''"
    have "process_file E f (w, v, ok, n) = (emit (Status Error ?m) ?w2, v', False, n, None)"
      using p r s d a Inr na unfolding reg by (simp add: process_file_def Let_def)
    then have "process_file E f (w, v, ok, n)
                   = (emit (Status Error ?m) ?w2, snd (add_documents E v [registered]), False, n, None) \<and>
               state (emit (Status Error ?m) ?w2) = append_documents registered (state w) \<and>
               trace (emit (Status Error ?m) ?w2)
                 = trace w @ [Status Info (''Processing '' @ name f @ ''...''), Status Error ?m]"
      using a by simp
    then show ?thesis by blast
  qed
qed

lemma rejecting_env_fields:
  "process_uploaded_file rejecting_env = process_uploaded_file demo_env"
  "load_single_document rejecting_env = load_single_document demo_env"
  "now_isoformat rejecting_env = now_isoformat demo_env"
  "add_documents rejecting_env = (\<lambda>v ds. (Inr False, v))"
  by (simp_all add: rejecting_env_def)

text \<open>
  C3, as the code has it. When a file of a batch is extracted and its insertion into the
  index does not succeed (\<^verbatim>\<open>add_documents\<close> returns a false value or raises), the
  document, registered before the insertion is tried, stays in the documents collection
  at its position, with the metadata every registered document gets (source, upload
  time, id) and nothing else; an error is reported for the file, or, when what the
  insertion raises is not an \<^verbatim>\<open>Exception\<close>, that exception leaves the function; and
  the batch sets neither \<^verbatim>\<open>documents_processed\<close> nor any health flag. Here
  \<open>before\<close> are the files of the batch processed earlier and \<open>w1\<close>, \<open>v1\<close> the world
  and the index they leave.
\<close>

theorem failed_insertion_keeps_document:
  assumes vs: "vector_store w = Some v"
    and before: "process_files E before (w, v, True, 0, None) = (w1, v1, ok1, n1, None)"
    and p: "process_uploaded_file E f = Inr p" and r: "load_single_document E p = Inr r"
    and s: "success r" and d: "loaded_document r = Some d"
    and reg: "registered = d\<lparr>metadata := (metadata d)(''source'' \<mapsto> name f,
                 ''upload_time'' \<mapsto> now_isoformat E (clock w1),
                 ''id'' \<mapsto> ''doc_'' @ str_nat (length (documents (state w1))))\<rparr>"
    and fail: "fst (add_documents E v1 [registered]) \<noteq> Inr True"
  shows "length (documents (state w1))
           < length (documents (state (process_uploaded_files E (before @ f # after) w))) \<and>
         documents (state (process_uploaded_files E (before @ f # after) w))
           ! length (documents (state w1)) = registered \<and>
         ((\<exists>m. Status Error m \<in> set (emitted w (process_uploaded_files E (before @ f # after) w))) \<or>
          (\<exists>e. \<not> is_exception e \<and>
               Raised e \<in> set (emitted w (process_uploaded_files E (before @ f # after) w)))) \<and>
         documents_processed (state (process_uploaded_files E (before @ f # after) w))
           = documents_processed (state w) \<and>
         system (state (process_uploaded_files E (before @ f # after) w)) = system (state w)"
proof -
  let ?w' = "process_uploaded_files E (before @ f # after) w"
  let ?v2 = "snd (add_documents E v1 [registered])"
  obtain new1 where b: "state w1 = (state w)\<lparr>documents := documents (state w) @ new1\<rparr>"
    using process_files_registry [of E before "(w, v, True, 0, None)"] before by auto
  obtain e1 where t1: "trace w1 = trace w @ e1"
    using process_files_trace [of E before "(w, v, True, 0, None)"] before by auto
  obtain w2 ok2 esc2 where step:
      "process_file E f (w1, v1, ok1, n1) = (w2, ?v2, ok2, n1, esc2)"
      "state w2 = append_documents registered (state w1)"
      "(esc2 = None \<and> ok2 = False \<and>
          (\<exists>m. trace w2 = trace w1 @ [Status Info (''Processing '' @ name f @ ''...''),
                                        Status Error m])) \<or>
       (\<exists>e. esc2 = Some e \<and> \<not> is_exception e \<and>
             trace w2 = trace w1 @ [Status Info (''Processing '' @ name f @ ''...'')])"
    using process_file_insertion_fails [OF p r s d reg fail, of ok1 n1] by blast
  have main: "\<exists>new3 tl. state ?w' = (state w2)\<lparr>documents := documents (state w2) @ new3\<rparr> \<and>
                emitted w ?w' = e1 @ tl \<and>
                ((\<exists>m. Status Error m \<in> set tl) \<or> (\<exists>e. \<not> is_exception e \<and> Raised e \<in> set tl))"
    using step(3)
  proof (elim disjE exE conjE)
    fix m
    assume esc: "esc2 = None" and ok: "ok2 = False"
      and t2: "trace w2 = trace w1 @ [Status Info (''Processing '' @ name f @ ''...''), Status Error m]"
    obtain w3 v3 n3 esc3 where rest:
      "process_files E after (w2, ?v2, False, n1, None) = (w3, v3, False, n3, esc3)"
      using process_files_not_ok [of E after w2 ?v2 n1 None] by blast
    obtain new3 where c: "state w3 = (state w2)\<lparr>documents := documents (state w2) @ new3\<rparr>"
      using process_files_registry [of E after "(w2, ?v2, False, n1, None)"] rest by auto
    obtain e3 where t3: "trace w3 = trace w2 @ e3"
      using process_files_trace [of E after "(w2, ?v2, False, n1, None)"] rest by auto
    have loop: "process_files E (before @ f # after) (w, v, True, 0, None) = (w3, v3, False, n3, esc3)"
      using before step(1) rest esc ok by (simp add: process_files_append)
    obtain last where fin: "state ?w' = state w3" "trace ?w' = trace w3 @ last"
      using vs loop
      by (cases esc3; cases "0 < n3") (simp_all add: process_uploaded_files_def Let_def)
    have "trace ?w' = trace w @ (e1 @ [Status Info (''Processing '' @ name f @ ''...''),
                Status Error m] @ e3 @ last)"
      using fin(2) t3 t2 t1 by simp
    then have B: "emitted w ?w' = e1 @ ([Status Info (''Processing '' @ name f @ ''...''),
                Status Error m] @ e3 @ last)"
      by (rule emitted_append)
    have C: "\<exists>m'. Status Error m' \<in> set ([Status Info (''Processing '' @ name f @ ''...''),
                Status Error m] @ e3 @ last)"
      by auto
    have A: "state ?w' = (state w2)\<lparr>documents := documents (state w2) @ new3\<rparr>"
      using fin(1) c by simp
    show ?thesis
      apply (rule exI [of _ new3])
      apply (rule exI [of _ "[Status Info (''Processing '' @ name f @ ''...''),
                Status Error m] @ e3 @ last"])
      using A B C by blast
  next
    fix e
    assume esc: "esc2 = Some e" and ne: "\<not> is_exception e"
      and t2: "trace w2 = trace w1 @ [Status Info (''Processing '' @ name f @ ''...'')]"
    have loop: "process_files E (before @ f # after) (w, v, True, 0, None) = (w2, ?v2, ok2, n1, Some e)"
      using before step(1) esc by (simp add: process_files_append)
    have fin: "state ?w' = state w2" "trace ?w' = trace w2 @ [Raised e]"
      using vs loop by (simp_all add: process_uploaded_files_def Let_def)
    have "trace ?w' = trace w @ (e1 @ [Status Info (''Processing '' @ name f @ ''...''), Raised e])"
      using fin(2) t2 t1 by simp
    then have B: "emitted w ?w' = e1 @ [Status Info (''Processing '' @ name f @ ''...''), Raised e]"
      by (rule emitted_append)
    have C: "\<exists>e'. \<not> is_exception e' \<and>
                Raised e' \<in> set [Status Info (''Processing '' @ name f @ ''...''), Raised e]"
      using ne by auto
    have A: "state ?w' = (state w2)\<lparr>documents := documents (state w2) @ []\<rparr>"
      using fin(1) by simp
    show ?thesis
      apply (rule exI [of _ "[]"])
      apply (rule exI [of _ "[Status Info (''Processing '' @ name f @ ''...''), Raised e]"])
      using A B C by blast
  qed
  then obtain new3 tl where fin: "state ?w' = (state w2)\<lparr>documents := documents (state w2) @ new3\<rparr>"
    "emitted w ?w' = e1 @ tl"
    "(\<exists>m. Status Error m \<in> set tl) \<or> (\<exists>e. \<not> is_exception e \<and> Raised e \<in> set tl)"
    by blast
  have docs: "documents (state ?w') = documents (state w1) @ registered # new3"
    using fin(1) step(2) by (simp add: append_documents_def)
  have "length (documents (state w1)) < length (documents (state ?w'))"
    using docs by simp
  moreover have "documents (state ?w') ! length (documents (state w1)) = registered"
    using docs by simp
  moreover have "(\<exists>m. Status Error m \<in> set (emitted w ?w')) \<or>
                 (\<exists>e. \<not> is_exception e \<and> Raised e \<in> set (emitted w ?w'))"
    using fin(2,3) by auto
  moreover have "documents_processed (state ?w') = documents_processed (state w)"
    using fin(1) step(2) b by (simp add: append_documents_def)
  moreover have "system (state ?w') = system (state w)"
    using fin(1) step(2) b by (simp add: append_documents_def)
  ultimately show ?thesis by blast
qed

theorem failed_insertion_keeps_document_witness:
  "documents (state (process_uploaded_files rejecting_env [first_file, other_file] demo_world)) ! 0
     = registered_first \<and>
   (\<exists>m. Status Error m \<in> set (emitted demo_world
           (process_uploaded_files rejecting_env [first_file, other_file] demo_world))) \<and>
   \<not> documents_processed (state
         (process_uploaded_files rejecting_env [first_file, other_file] demo_world)) \<and>
   \<not> vector_store_initialized (system (state
         (process_uploaded_files rejecting_env [first_file, other_file] demo_world)))"
proof -
  let ?d = "\<lparr>page_content = ''/tmp/a.txt'', metadata = Map.empty\<rparr>"
  let ?r = "\<lparr>success = True, loaded_document = Some ?d, error_message = []\<rparr>"
  have vs: "vector_store demo_world = Some []" by (simp add: demo_world_def)
  have before: "process_files rejecting_env [] (demo_world, [], True, 0, None)
                  = (demo_world, [], True, 0, None)"
    by simp
  have p: "process_uploaded_file rejecting_env first_file = Inr ''/tmp/a.txt''"
    by (simp add: rejecting_env_fields demo_env_def first_file_def)
  have r: "load_single_document rejecting_env ''/tmp/a.txt'' = Inr ?r"
    by (simp add: rejecting_env_fields demo_env_def)
  have s: "success ?r" and d: "loaded_document ?r = Some ?d" by simp_all
  have reg: "registered_first = ?d\<lparr>metadata := (metadata ?d)(''source'' \<mapsto> name first_file,
                 ''upload_time'' \<mapsto> now_isoformat rejecting_env (clock demo_world),
                 ''id'' \<mapsto> ''doc_'' @ str_nat (length (documents (state demo_world))))\<rparr>"
    by (simp add: registered_first_def rejecting_env_fields demo_env_def first_file_def
        demo_world_def initial_state_def str_nat_small)
  have fail: "fst (add_documents rejecting_env [] [registered_first]) \<noteq> Inr True"
    by (simp add: rejecting_env_fields)
  have init: "documents (state demo_world) = []" "\<not> documents_processed (state demo_world)"
    "\<not> vector_store_initialized (system (state demo_world))"
    by (simp_all add: demo_world_def initial_state_def)
  have shown: "\<And>e. Raised e \<notin> set (emitted demo_world
           (process_uploaded_files rejecting_env [first_file, other_file] demo_world))"
    by (simp add: process_uploaded_files_def process_file_def rejecting_env_def demo_env_def
        first_file_def other_file_def demo_world_def initial_state_def append_documents_def
        emit_def modify_def emitted_def Let_def)
  show ?thesis
    using failed_insertion_keeps_document [OF vs before p r s d reg fail, of "[other_file]"] init
      shown
    by auto
qed

text \<open>
  C3 as stated does not hold: after a failed insertion the document is in the registry,
  the index does not have it, and the registry entry is the very one a successful
  insertion leaves, with no flag on it.
\<close>

theorem failed_insertion_not_rolled_back:
  "documents (state (process_uploaded_files rejecting_env [first_file] demo_world))
     = [registered_first] \<and>
   dom (metadata registered_first) = {''source'', ''upload_time'', ''id''} \<and>
   vector_store (process_uploaded_files rejecting_env [first_file] demo_world) = Some [] \<and>
   documents (state (process_uploaded_files demo_env [first_file] demo_world))
     = [registered_first]"
  by (simp add: process_uploaded_files_def process_file_def rejecting_env_def demo_env_def
      first_file_def registered_first_def
      demo_world_def initial_state_def append_documents_def emit_def modify_def
      update_vector_store_initialized_def str_nat_small Let_def insert_commute)

end
